theory Spec2Isabelle
  imports Main "HOL-Library.Sublist"
begin

section \<open>JavaScript values, errors and strings\<close>

text \<open>
  The values that flow through \<^verbatim>\<open>StyxyClient\<close> (styxyClient.js) and
  \<^verbatim>\<open>SingletonLock\<close> (singleton.js). An object is its list of own properties in
  insertion order. A number is a double: \<open>JNum i\<close> is the double whose value is the
  integer \<open>i\<close>, \<open>JInfinity\<close> is \<^verbatim>\<open>Infinity\<close>; the code builds no other number
  (its numbers come from \<^verbatim>\<open>parseInt\<close> on a run of decimal digits and from process
  ids). Strings are lists of ASCII characters. \<open>JNative n\<close> is the built-in member \<open>n\<close>
  of \<^verbatim>\<open>Object.prototype\<close>.
\<close>

datatype jsval =
    JUndefined
  | JNull
  | JBool bool
  | JNum int
  | JInfinity
  | JStr string
  | JArr "jsval list"
  | JObj "(string \<times> jsval) list"
  | JNative string

text \<open>Truthiness, as \<^verbatim>\<open>if (x)\<close>, \<^verbatim>\<open>!x\<close>, \<^verbatim>\<open>x || y\<close> and \<^verbatim>\<open>x && y\<close> test it.\<close>

fun truthy :: "jsval \<Rightarrow> bool" where
  "truthy JUndefined = False"
| "truthy JNull = False"
| "truthy (JBool b) = b"
| "truthy (JNum n) = (n \<noteq> 0)"
| "truthy JInfinity = True"
| "truthy (JStr s) = (s \<noteq> [])"
| "truthy (JArr xs) = True"
| "truthy (JObj kvs) = True"
| "truthy (JNative n) = True"

text \<open>
  The own property names of a result object: its field set. A value that is not an object
  has none.
\<close>

fun field_names :: "jsval \<Rightarrow> string list" where
  "field_names (JObj kvs) = map fst kvs"
| "field_names v = []"

text \<open>
  Reading a property \<^verbatim>\<open>v.k\<close> for the names the code reads (none of them is a
  member of a prototype): the value of an object's own property, \<^verbatim>\<open>undefined\<close>
  where it has none. \<open>None\<close> is the \<^verbatim>\<open>TypeError\<close> of reading a property of
  \<^verbatim>\<open>null\<close> or \<^verbatim>\<open>undefined\<close>.
\<close>

fun get_prop :: "jsval \<Rightarrow> string \<Rightarrow> jsval option" where
  "get_prop JUndefined k = None"
| "get_prop JNull k = None"
| "get_prop (JObj kvs) k = (case map_of kvs k of None \<Rightarrow> Some JUndefined | Some v \<Rightarrow> Some v)"
| "get_prop v k = Some JUndefined"

text \<open>
  A thrown value. \<open>ExecError m out\<close> is the rejection of a promisified
  \<^verbatim>\<open>child_process.exec\<close>: an \<^verbatim>\<open>Error\<close> with message \<open>m\<close> that also
  carries the captured \<^verbatim>\<open>stdout\<close>.
\<close>

datatype error =
    Error string
  | TypeError string
  | RangeError string
  | ExecError string string

fun message :: "error \<Rightarrow> string" where
  "message (Error m) = m"
| "message (TypeError m) = m"
| "message (RangeError m) = m"
| "message (ExecError m out) = m"

text \<open>\<^verbatim>\<open>error.stdout\<close>: only the rejection of \<^verbatim>\<open>exec\<close> has the property.\<close>

fun stdout_of :: "error \<Rightarrow> jsval" where
  "stdout_of (ExecError m out) = JStr out"
| "stdout_of e = JUndefined"

text \<open>The message V8 gives to \<^verbatim>\<open>null[0]\<close>.\<close>

definition null_index_message :: string where
  "null_index_message = ''Cannot read properties of null (reading '0')''"

subsection \<open>Characters and numbers\<close>

definition is_digit :: "char \<Rightarrow> bool" where
  "is_digit c = (c \<in> set ''0123456789'')"

text \<open>The ASCII characters matched by \<^verbatim>\<open>\s\<close> and stripped by \<^verbatim>\<open>trim()\<close>.\<close>

definition is_space :: "char \<Rightarrow> bool" where
  "is_space c = (c \<in> {CHR '' '', CHR 0x09, CHR 0x0A, CHR 0x0B, CHR 0x0C, CHR 0x0D})"

text \<open>The ASCII line terminators, which \<^verbatim>\<open>.\<close> does not match.\<close>

definition is_line_terminator :: "char \<Rightarrow> bool" where
  "is_line_terminator c = (c \<in> {CHR 0x0A, CHR 0x0D})"

definition digit_val :: "char \<Rightarrow> nat" where
  "digit_val c = of_char c - 48"

text \<open>The integer that a run of decimal digits writes.\<close>

definition decimal_value :: "string \<Rightarrow> nat" where
  "decimal_value ds = foldl (\<lambda>n c. 10 * n + digit_val c) 0 ds"

text \<open>The number of binary digits of a natural number.\<close>

fun bit_length :: "nat \<Rightarrow> nat" where
  "bit_length n = (if n = 0 then 0 else Suc (bit_length (n div 2)))"

declare bit_length.simps [simp del]

text \<open>
  The double nearest to a natural number, as an integer: the number itself below \<open>2^53\<close>;
  above, the 53 leading binary digits, rounded to nearest with ties to the even significand.
  \<open>None\<close> is \<^verbatim>\<open>Infinity\<close>, which the rounding reaches from \<open>2^1024 - 2^970\<close> on.
\<close>

definition to_double :: "nat \<Rightarrow> nat option" where
  "to_double n =
     (if n < 2 ^ 53 then Some n
      else (let k = bit_length n - 53;
                q = n div 2 ^ k;
                r = n mod 2 ^ k;
                h = 2 ^ (k - 1);
                m = (if h < r \<or> (r = h \<and> odd q) then q + 1 else q)
            in if 2 ^ 1024 \<le> m * 2 ^ k then None else Some (m * 2 ^ k)))"

text \<open>The non-negative numbers that \<^verbatim>\<open>parseInt\<close> returns on a run of digits.\<close>

datatype jsnum = Finite int | Infinity

fun num_val :: "jsnum \<Rightarrow> jsval" where
  "num_val (Finite i) = JNum i"
| "num_val Infinity = JInfinity"

text \<open>
  \<^verbatim>\<open>parseInt\<close>, which the code only applies to a match of \<^verbatim>\<open>\d+\<close>: the double nearest
  to the integer that the run of digits writes.
\<close>

definition parseInt :: "string \<Rightarrow> jsnum" where
  "parseInt ds =
     (case to_double (decimal_value ds) of
        Some x \<Rightarrow> Finite (int x)
      | None \<Rightarrow> Infinity)"

text \<open>The decimal digits of a natural number.\<close>

fun show_nat :: "nat \<Rightarrow> string" where
  "show_nat n =
     (if n < 10 then [char_of (48 + n)]
      else show_nat (n div 10) @ [char_of (48 + n mod 10)])"

declare show_nat.simps [simp del]

text \<open>
  The shortest decimal that reads back as the double \<open>x\<close>, for \<open>x\<close> of \<open>d\<close> decimal
  digits. With \<open>k\<close> significant digits the only candidates are the two multiples of
  \<open>10^(d-k)\<close> around \<open>x\<close>; of two that read back as \<open>x\<close> the nearer one is taken, the even
  one when they are equally near.
\<close>

definition shortest_candidate :: "nat \<Rightarrow> nat \<Rightarrow> nat \<Rightarrow> nat option" where
  "shortest_candidate x d k =
     (let p = 10 ^ (d - k);
          lo = x div p;
          hi = lo + 1;
          vlo = (to_double (lo * p) = Some x);
          vhi = (to_double (hi * p) = Some x)
      in if vlo \<and> vhi
         then Some (if x - lo * p < hi * p - x then lo * p
                    else if hi * p - x < x - lo * p then hi * p
                    else if even lo then lo * p else hi * p)
         else if vlo then Some (lo * p)
         else if vhi then Some (hi * p)
         else None)"

definition shortest_decimal :: "nat \<Rightarrow> nat" where
  "shortest_decimal x =
     (let d = length (show_nat x)
      in case List.map_filter (shortest_candidate x d) [1..<Suc d] of
           y # ys \<Rightarrow> y
         | [] \<Rightarrow> x)"

text \<open>
  The exponent form of a decimal \<open>y\<close> of more than 21 digits: its digits without the
  trailing zeros, a point after the first when there are several, and the exponent.
\<close>

definition exponent_text :: "nat \<Rightarrow> string" where
  "exponent_text y =
     (let s = show_nat y;
          sig = rev (dropWhile (\<lambda>c. c = CHR ''0'') (rev s))
      in (case sig of
            [] \<Rightarrow> []
          | [c] \<Rightarrow> [c]
          | c # cs \<Rightarrow> c # CHR ''.'' # cs)
         @ ''e+'' @ show_nat (length s - 1))"

text \<open>
  \<^verbatim>\<open>Number.prototype.toString\<close> on a double whose value is the natural number \<open>x\<close>: all
  its digits below \<open>2^53\<close>; above, the digits of its shortest decimal, in exponent form from
  \<open>10^21\<close> on.
\<close>

definition double_text :: "nat \<Rightarrow> string" where
  "double_text x =
     (if x < 2 ^ 53 then show_nat x
      else (let y = shortest_decimal x
            in if y < 10 ^ 21 then show_nat y else exponent_text y))"

definition nat_text :: "nat \<Rightarrow> string" where
  "nat_text n = (case to_double n of None \<Rightarrow> ''Infinity'' | Some x \<Rightarrow> double_text x)"

text \<open>
  An integer-valued number in a template literal or under \<^verbatim>\<open>toString()\<close>: the text of
  the double nearest to it.
\<close>

definition show_int :: "int \<Rightarrow> string" where
  "show_int i = (if i < 0 then CHR ''-'' # nat_text (nat (- i)) else nat_text (nat i))"

fun num_text :: "jsnum \<Rightarrow> string" where
  "num_text (Finite i) = show_int i"
| "num_text Infinity = ''Infinity''"

subsection \<open>String methods\<close>

text \<open>\<^verbatim>\<open>s.includes(sub)\<close>.\<close>

fun str_includes :: "string \<Rightarrow> string \<Rightarrow> bool" where
  "str_includes [] sub = (sub = [])"
| "str_includes (c # cs) sub = (prefix sub (c # cs) \<or> str_includes cs sub)"

text \<open>\<^verbatim>\<open>s.trim()\<close>.\<close>

definition trim :: "string \<Rightarrow> string" where
  "trim s = rev (dropWhile is_space (rev (dropWhile is_space s)))"

text \<open>
  \<^verbatim>\<open>s.split(sep)\<close> for a non-empty separator (every call site passes a non-empty
  literal): \<open>cur\<close> is the piece collected so far.
\<close>

function split_from :: "string \<Rightarrow> string \<Rightarrow> string \<Rightarrow> string list" where
  "split_from sep cur [] = [cur]"
| "split_from sep cur (c # cs) =
     (if sep \<noteq> [] \<and> prefix sep (c # cs)
      then cur # split_from sep [] (drop (length sep) (c # cs))
      else split_from sep (cur @ [c]) cs)"
  by pat_completeness auto
termination
  by (relation "measure (\<lambda>(sep, cur, s). length s)") (auto simp: neq_Nil_conv)

definition split :: "string \<Rightarrow> string \<Rightarrow> string list" where
  "split s sep = split_from sep [] s"

text \<open>\<^verbatim>\<open>args.join(' ')\<close>.\<close>

fun join :: "string list \<Rightarrow> string \<Rightarrow> string" where
  "join [] sep = []"
| "join [x] sep = x"
| "join (x # y # ys) sep = x @ sep @ join (y # ys) sep"

text \<open>
  \<^verbatim>\<open>s.match(/\d+/)\<close>: the leftmost maximal run of digits, \<open>None\<close> for the
  \<^verbatim>\<open>null\<close> of a string without a digit.
\<close>

definition match_digits :: "string \<Rightarrow> string option" where
  "match_digits s =
     (let r = dropWhile (\<lambda>c. \<not> is_digit c) s
      in if r = [] then None else Some (takeWhile is_digit r))"

section \<open>The CLI fallback of StyxyClient\<close>

text \<open>
  What the client process sees of its surroundings: \<open>exec cmd\<close> is the settlement of
  \<^verbatim>\<open>execAsync(cmd)\<close>, \<open>Inr\<close> the captured \<^verbatim>\<open>stdout\<close>; \<open>json_parse\<close> is
  \<^verbatim>\<open>JSON.parse\<close>, \<open>None\<close> where it throws a \<^verbatim>\<open>SyntaxError\<close>.
\<close>

record shell =
  exec :: "string \<Rightarrow> error + string"
  json_parse :: "string \<Rightarrow> jsval option"

subsection \<open>Commands\<close>

record alloc_context =
  serviceType :: string
  projectName :: string
  workingDir :: string
  claudeSessionId :: string

text \<open>\<open>None\<close> is a property that is \<^verbatim>\<open>undefined\<close>.\<close>

record preferences =
  port :: "int option"
  duration :: "string option"

record metadata =
  serviceName :: "string option"
  timestamp :: string

text \<open>
  The command objects built by \<^verbatim>\<open>allocatePort\<close>, \<^verbatim>\<open>getStatus\<close>,
  \<^verbatim>\<open>cleanup\<close>, \<^verbatim>\<open>getLogs\<close> and \<^verbatim>\<open>getMetrics\<close>.
\<close>

datatype command =
    Allocate alloc_context preferences metadata
  | Status (include_ports: bool) (include_recent_errors: bool)
  | Cleanup (force: bool) (cleanup_port: "int option") (session_id: "string option")
  | Logs jsval
  | Metrics jsval

fun command_type :: "command \<Rightarrow> string" where
  "command_type (Allocate c p m) = ''allocate''"
| "command_type (Status a b) = ''status''"
| "command_type (Cleanup f p s) = ''cleanup''"
| "command_type (Logs opts) = ''logs''"
| "command_type (Metrics opts) = ''metrics''"

subsection \<open>allocate\<close>

definition object_prototype_members :: "string list" where
  "object_prototype_members =
     [''constructor'', ''__proto__'', ''hasOwnProperty'', ''isPrototypeOf'',
      ''propertyIsEnumerable'', ''toLocaleString'', ''toString'', ''valueOf'',
      ''__defineGetter__'', ''__defineSetter__'', ''__lookupGetter__'', ''__lookupSetter__'']"

text \<open>
  \<^verbatim>\<open>generateUsageExamplesCli\<close>: \<^verbatim>\<open>examples[serviceType] || fallback\<close>. The lookup
  on the object literal also finds the members it inherits, all of them truthy.
\<close>

definition generateUsageExamplesCli :: "string \<Rightarrow> jsnum \<Rightarrow> jsval" where
  "generateUsageExamplesCli st p =
     (let examples =
        [(''web'', ''npm run dev -- --port '' @ num_text p),
         (''api'', ''PORT='' @ num_text p @ '' npm start''),
         (''storybook'', ''npm run storybook -- --port '' @ num_text p),
         (''database'', ''# Configure your database to use port '' @ num_text p),
         (''testing'', ''npm test -- --port '' @ num_text p)]
      in case map_of examples st of
           Some e \<Rightarrow> JStr e
         | None \<Rightarrow>
             if st \<in> set object_prototype_members then JNative st
             else JStr (''# Use port '' @ num_text p @ '' for your '' @ st @ '' service''))"

text \<open>The argument list of lines 134 to 146.\<close>

definition allocate_args :: "alloc_context \<Rightarrow> preferences \<Rightarrow> string list" where
  "allocate_args ctx prefs =
     [''allocate'', ''--service-type'', serviceType ctx, ''--project'', projectName ctx]
     @ (case port prefs of
          Some p \<Rightarrow> if p \<noteq> 0 then [''--preferred-port'', show_int p] else []
        | None \<Rightarrow> [])
     @ (case duration prefs of
          Some d \<Rightarrow> if d \<noteq> [] then [''--duration'', d] else []
        | None \<Rightarrow> [])"

text \<open>The command line of line 148.\<close>

definition allocate_command_line :: "alloc_context \<Rightarrow> preferences \<Rightarrow> string" where
  "allocate_command_line ctx prefs = ''styxy '' @ join (allocate_args ctx prefs) '' ''"

text \<open>
  Lines 151 to 153, the local \<^verbatim>\<open>port\<close>: \<open>Inr None\<close> is \<^verbatim>\<open>null\<close> (no line
  contains \<^verbatim>\<open>Port:\<close>), \<open>Inl\<close> the \<^verbatim>\<open>TypeError\<close> of indexing the
  \<^verbatim>\<open>null\<close> that \<^verbatim>\<open>match\<close> returns on a line without a digit.
\<close>

definition extracted_port :: "string \<Rightarrow> error + jsnum option" where
  "extracted_port out =
     (let lines = split (trim out) ''\<newline>''
      in case find (\<lambda>line. str_includes line ''Port:'') lines of
           None \<Rightarrow> Inr None
         | Some portLine \<Rightarrow>
             (case match_digits portLine of
                None \<Rightarrow> Inl (TypeError null_index_message)
              | Some ds \<Rightarrow> Inr (Some (parseInt ds))))"

text \<open>The object literal of lines 159 to 167, for the number \<open>p\<close> in \<^verbatim>\<open>port\<close>.\<close>

definition allocation_object :: "alloc_context \<Rightarrow> preferences \<Rightarrow> string \<Rightarrow> jsnum \<Rightarrow> jsval" where
  "allocation_object ctx prefs out p =
     JObj
       [(''allocated_port'', num_val p),
        (''service_url'', JStr (''http://localhost:'' @ num_text p)),
        (''cleanup_command'', JStr (''styxy release '' @ num_text p)),
        (''duration'',
           (case duration prefs of
              Some d \<Rightarrow> if d \<noteq> [] then JStr d else JStr ''session''
            | None \<Rightarrow> JStr ''session'')),
        (''expires_with_session'', JBool (duration prefs = Some ''session'')),
        (''usage_example'', generateUsageExamplesCli (serviceType ctx) p),
        (''raw_output'', JStr out)]"

text \<open>The same object when the port is the integer \<open>p\<close>.\<close>

definition allocation_result :: "alloc_context \<Rightarrow> preferences \<Rightarrow> string \<Rightarrow> int \<Rightarrow> jsval" where
  "allocation_result ctx prefs out p = allocation_object ctx prefs out (Finite p)"

text \<open>
  \<^verbatim>\<open>cliAllocatePort\<close>. Whatever is thrown inside the \<^verbatim>\<open>try\<close> (the rejection of
  \<^verbatim>\<open>execAsync\<close>, the \<^verbatim>\<open>TypeError\<close>, the parse failure of line 156) is rethrown
  by the \<^verbatim>\<open>catch\<close> under the prefix \<^verbatim>\<open>CLI allocation failed:\<close>. Line 155 tests
  \<^verbatim>\<open>!port\<close>, which holds for \<^verbatim>\<open>null\<close> and for the number 0.
\<close>

definition allocate_try :: "shell \<Rightarrow> alloc_context \<Rightarrow> preferences \<Rightarrow> error + jsval" where
  "allocate_try sh ctx prefs =
     (case exec sh (allocate_command_line ctx prefs) of
        Inl e \<Rightarrow> Inl e
      | Inr out \<Rightarrow>
          (case extracted_port out of
             Inl e \<Rightarrow> Inl e
           | Inr pt \<Rightarrow>
               (case pt of
                  None \<Rightarrow> Inl (Error ''Failed to parse allocated port from styxy output'')
                | Some p \<Rightarrow>
                    if p = Finite 0
                    then Inl (Error ''Failed to parse allocated port from styxy output'')
                    else Inr (allocation_object ctx prefs out p))))"

definition cliAllocatePort :: "shell \<Rightarrow> alloc_context \<Rightarrow> preferences \<Rightarrow> error + jsval" where
  "cliAllocatePort sh ctx prefs =
     (case allocate_try sh ctx prefs of
        Inl e \<Rightarrow> Inl (Error (''CLI allocation failed: '' @ message e))
      | Inr r \<Rightarrow> Inr r)"

subsection \<open>status\<close>

text \<open>
  \<^verbatim>\<open>extractValue\<close>: the text between the first and the second occurrence of the prefix
  on the first line that contains it, trimmed; \<^verbatim>\<open>null\<close> without such a line.
\<close>

definition extractValue :: "string list \<Rightarrow> string \<Rightarrow> jsval" where
  "extractValue lines pre =
     (case find (\<lambda>l. str_includes l pre) lines of
        None \<Rightarrow> JNull
      | Some line \<Rightarrow>
          if line = [] then JNull
          else (case split line pre of
                  a # b # rest \<Rightarrow> JStr (trim b)
                | _ \<Rightarrow> JUndefined))"

text \<open>
  The tail \<^verbatim>\<open>\s*(.+)\<close> of the port-row pattern, anchored at \<open>r\<close>: the group is what
  \<^verbatim>\<open>.+\<close> takes after the longest run of white space that leaves it a character to
  start on.
\<close>

definition row_description :: "string \<Rightarrow> string option" where
  "row_description r =
     (let t = dropWhile is_space r
      in if t \<noteq> [] then Some (takeWhile (\<lambda>c. \<not> is_line_terminator c) t)
         else (case filter (\<lambda>c. \<not> is_line_terminator c) r of
                 [] \<Rightarrow> None
               | c # cs \<Rightarrow> Some [last (c # cs)]))"

text \<open>The pattern \<^verbatim>\<open>(\d+)\s*-\s*(.+)\<close> tried at the head of \<open>s\<close>.\<close>

definition port_row_here :: "string \<Rightarrow> (string \<times> string) option" where
  "port_row_here s =
     (if takeWhile is_digit s = [] then None
      else (case dropWhile is_space (dropWhile is_digit s) of
              [] \<Rightarrow> None
            | c # r \<Rightarrow>
                if c = CHR ''-''
                then map_option (\<lambda>g. (takeWhile is_digit s, g)) (row_description r)
                else None))"

text \<open>\<^verbatim>\<open>line.match(/(\d+)\s*-\s*(.+)/)\<close>: the leftmost position where the pattern matches.\<close>

fun match_port_row :: "string \<Rightarrow> (string \<times> string) option" where
  "match_port_row [] = None"
| "match_port_row (c # cs) =
     (case port_row_here (c # cs) of
        Some m \<Rightarrow> Some m
      | None \<Rightarrow> match_port_row cs)"

fun extractPorts :: "string list \<Rightarrow> jsval list" where
  "extractPorts [] = []"
| "extractPorts (line # lines) =
     (case match_port_row line of
        Some (ds, g) \<Rightarrow>
          JObj [(''port'', num_val (parseInt ds)), (''description'', JStr (trim g))]
            # extractPorts lines
      | None \<Rightarrow> extractPorts lines)"

definition parseStatusOutput :: "string \<Rightarrow> jsval" where
  "parseStatusOutput output =
     (let lines = split output ''\<newline>''
      in JObj
        [(''daemon_running'',
            JBool (\<not> str_includes output ''not running'' \<and> \<not> str_includes output ''failed'')),
         (''pid'', extractValue lines ''PID:''),
         (''uptime'', extractValue lines ''Uptime:''),
         (''active_ports'', JArr (extractPorts lines)),
         (''config_path'', extractValue lines ''Config:''),
         (''log_path'', extractValue lines ''Logs:''),
         (''raw_output'', JStr output)])"

text \<open>
  \<^verbatim>\<open>cliGetStatus\<close>: the structured invocation, then the plain-text one, then the
  degraded result. No path of it throws.
\<close>

definition cliGetStatus :: "shell \<Rightarrow> jsval" where
  "cliGetStatus sh =
     (case (case exec sh ''styxy status --json'' of
              Inl e \<Rightarrow> None
            | Inr out \<Rightarrow> json_parse sh out) of
        Some r \<Rightarrow> r
      | None \<Rightarrow>
          (case exec sh ''styxy status'' of
             Inr out \<Rightarrow> parseStatusOutput out
           | Inl fallbackError \<Rightarrow>
               JObj
                 [(''daemon_running'', JBool False),
                  (''error'', JStr (''Status check failed: '' @ message fallbackError)),
                  (''active_ports'', JArr []),
                  (''recent_errors'',
                     JArr [JStr (''CLI error: '' @ message fallbackError)])]))"

subsection \<open>cleanup\<close>

definition released_marker :: string where
  "released_marker = ''Released port ''"

text \<open>
  Whether \<^verbatim>\<open>/Released port (\d+)/\<close> matches at the head of \<open>s\<close>.
\<close>

definition released_here :: "string \<Rightarrow> bool" where
  "released_here s =
     (prefix released_marker s \<and>
      takeWhile is_digit (drop (length released_marker) s) \<noteq> [])"

text \<open>
  \<^verbatim>\<open>output.match(/Released port (\d+)/g) || []\<close>: all matches from left to right,
  each search resuming where the last match ended.
\<close>

function released_matches :: "string \<Rightarrow> string list" where
  "released_matches [] = []"
| "released_matches (c # cs) =
     (if released_here (c # cs)
      then (released_marker @ takeWhile is_digit (drop (length released_marker) (c # cs)))
             # released_matches (dropWhile is_digit (drop (length released_marker) (c # cs)))
      else released_matches cs)"
  by pat_completeness auto
termination
proof (relation "measure length")
  show "wf (measure length)"
    by simp
next
  fix c :: char and cs :: string
  have "length (dropWhile is_digit (drop (length released_marker) (c # cs)))
          \<le> length (drop (length released_marker) (c # cs))"
    by (rule length_dropWhile_le)
  also have "\<dots> < length (c # cs)"
    by (simp add: released_marker_def)
  finally show "(dropWhile is_digit (drop (length released_marker) (c # cs)), c # cs)
                  \<in> measure length"
    by simp
next
  fix c :: char and cs :: string
  show "(cs, c # cs) \<in> measure length"
    by simp
qed

text \<open>
  \<^verbatim>\<open>extractReleasedPorts\<close>. A match always holds a digit, so the inner
  \<^verbatim>\<open>match(/\d+/)[0]\<close> never indexes \<^verbatim>\<open>null\<close>; the model keeps the case and
  drops such a match.
\<close>

definition extractReleasedPorts :: "string \<Rightarrow> jsnum list" where
  "extractReleasedPorts output =
     List.map_filter (\<lambda>m. map_option parseInt (match_digits m)) (released_matches output)"

text \<open>The argument list of lines 228 to 236 and the command line of line 238.\<close>

definition cleanup_command_line :: "command \<Rightarrow> string" where
  "cleanup_command_line cmd =
     (let args = [''cleanup'']
                 @ (if force cmd then [''--force''] else [])
                 @ (case cleanup_port cmd of
                      Some p \<Rightarrow> if p \<noteq> 0 then [''--port'', show_int p] else []
                    | None \<Rightarrow> [])
      in ''styxy '' @ join args '' '')"

definition cliCleanup :: "shell \<Rightarrow> command \<Rightarrow> jsval" where
  "cliCleanup sh cmd =
     (case exec sh (cleanup_command_line cmd) of
        Inr out \<Rightarrow>
          JObj [(''released_ports'', JArr (map num_val (extractReleasedPorts out))),
                (''raw_output'', JStr out)]
      | Inl e \<Rightarrow>
          JObj [(''released_ports'', JArr []),
                (''errors'', JArr [JStr (message e)]),
                (''raw_output'',
                   (if truthy (stdout_of e) then stdout_of e else JStr ''''))])"

subsection \<open>Dispatch\<close>

text \<open>\<^verbatim>\<open>fallbackToCliCommand\<close>: the \<^verbatim>\<open>switch\<close> on \<^verbatim>\<open>command.type\<close>.\<close>

fun fallbackToCliCommand :: "shell \<Rightarrow> command \<Rightarrow> error + jsval" where
  "fallbackToCliCommand sh (Allocate ctx prefs meta) = cliAllocatePort sh ctx prefs"
| "fallbackToCliCommand sh (Status a b) = Inr (cliGetStatus sh)"
| "fallbackToCliCommand sh (Cleanup f p s) = Inr (cliCleanup sh (Cleanup f p s))"
| "fallbackToCliCommand sh cmd =
     Inl (Error (''CLI fallback not implemented for command type: '' @ command_type cmd))"

text \<open>A field of the result of a call that returned; \<open>None\<close> for a call that threw.\<close>

definition result_field :: "error + jsval \<Rightarrow> string \<Rightarrow> jsval option" where
  "result_field res k = (case res of Inl e \<Rightarrow> None | Inr r \<Rightarrow> get_prop r k)"

text \<open>The field set of the result of a call that returned.\<close>

definition result_fields :: "error + jsval \<Rightarrow> string list option" where
  "result_fields res = (case res of Inl e \<Rightarrow> None | Inr r \<Rightarrow> Some (field_names r))"

section \<open>The daemon channel of StyxyClient\<close>

subsection \<open>Objects\<close>

text \<open>\<^verbatim>\<open>{...v}\<close>: the own enumerable properties of a value.\<close>

fun spread :: "jsval \<Rightarrow> (string \<times> jsval) list" where
  "spread (JObj kvs) = kvs"
| "spread (JArr xs) = zip (map show_nat [0..<length xs]) xs"
| "spread (JStr s) = zip (map show_nat [0..<length s]) (map (\<lambda>c. JStr [c]) s)"
| "spread v = []"

text \<open>Assignment to a property: in place when the object has it, appended otherwise.\<close>

fun obj_set :: "(string \<times> jsval) list \<Rightarrow> string \<Rightarrow> jsval \<Rightarrow> (string \<times> jsval) list" where
  "obj_set [] k v = [(k, v)]"
| "obj_set ((k', v') # kvs) k v =
     (if k' = k then (k, v) # kvs else (k', v') # obj_set kvs k v)"

text \<open>\<^verbatim>\<open>delete obj.k\<close>.\<close>

definition obj_delete :: "(string \<times> jsval) list \<Rightarrow> string \<Rightarrow> (string \<times> jsval) list" where
  "obj_delete kvs k = filter (\<lambda>kv. fst kv \<noteq> k) kvs"

text \<open>A property read that cannot throw: \<^verbatim>\<open>v?.k\<close>, or \<^verbatim>\<open>v.k\<close> on a truthy \<open>v\<close>.\<close>

definition get_prop_opt :: "jsval \<Rightarrow> string \<Rightarrow> jsval" where
  "get_prop_opt v k = (case get_prop v k of None \<Rightarrow> JUndefined | Some x \<Rightarrow> x)"

text \<open>The message V8 gives to reading property \<open>k\<close> of \<^verbatim>\<open>null\<close> or \<^verbatim>\<open>undefined\<close>.\<close>

definition cannot_read :: "jsval \<Rightarrow> string \<Rightarrow> string" where
  "cannot_read v k =
     ''Cannot read properties of '' @ (if v = JNull then ''null'' else ''undefined'')
       @ '' (reading '' @ [CHR 0x27] @ k @ [CHR 0x27] @ '')''"

text \<open>
  \<^verbatim>\<open>path.join\<close> on segments that need no normalisation (no empty segment, no dot
  segment, no doubled separator).
\<close>

definition path_join :: "string list \<Rightarrow> string" where
  "path_join segs = join segs ''/''"

subsection \<open>The process, the client and its socket\<close>

datatype ready_state = Opening | Open | ReadOnly | WriteOnly | Closed

record socket =
  target :: jsval
  readyState :: ready_state

text \<open>
  How \<^verbatim>\<open>net.createConnection\<close> ends for the promise of lines 64 to 82: the
  \<^verbatim>\<open>connect\<close> event, the \<^verbatim>\<open>error\<close> event, the \<^verbatim>\<open>timeout\<close> event after
  5000 ms without activity, or a synchronous throw of the call itself.
\<close>

datatype connect_outcome =
    Connected
  | ConnectError error
  | ConnectTimeout
  | ConnectThrows error

text \<open>
  What a connected socket emits after a write: a chunk of data; an \<^verbatim>\<open>error\<close> event,
  with which Node destroys the socket; the \<^verbatim>\<open>timeout\<close> event of the idle timer that
  line 77 sets to 5000 ms, on which the listener of line 78 destroys the socket; the
  \<^verbatim>\<open>close\<close> event of a connection that the daemon ended. A destroyed or closed socket
  emits nothing more, and its \<^verbatim>\<open>readyState\<close> is \<^verbatim>\<open>closed\<close>.
\<close>

datatype socket_event = Data string | SocketError error | SocketTimeout | SocketClose

text \<open>
  The surroundings of a \<^verbatim>\<open>StyxyClient\<close>: the shell, the home directory,
  \<^verbatim>\<open>fs.readFile\<close>, the outcome of connecting to a socket path, the events that follow
  the write of a command (each with the milliseconds since the write, in order of
  occurrence), and the number of nested calls the call stack holds.
\<close>

record host =
  shell_of :: shell
  homedir :: string
  read_file :: "string \<Rightarrow> error + string"
  connect :: "jsval \<Rightarrow> connect_outcome"
  daemon_events :: "command \<Rightarrow> (nat \<times> socket_event) list"
  stack_depth :: nat

text \<open>The two fields of the class; the constructor sets both to \<^verbatim>\<open>null\<close>.\<close>

record client =
  daemonSocket :: "socket option"
  config :: jsval

definition new_client :: client where
  "new_client = \<lparr> daemonSocket = None, config = JNull \<rparr>"

subsection \<open>Configuration\<close>

text \<open>
  The class body declares \<^verbatim>\<open>getConfig\<close> twice, at line 16 and at line 344. A class
  keeps one method per name, the one declared last, so every \<^verbatim>\<open>this.getConfig()\<close>,
  the one at line 345 included, runs the declaration of line 344. The declaration of
  line 16 and \<^verbatim>\<open>loadDefaultConfig\<close>, which only it calls, are never run; they are
  modelled here as \<open>getConfig_shadowed\<close> and \<open>loadDefaultConfig\<close>.
\<close>

fun try_config_paths :: "host \<Rightarrow> string list \<Rightarrow> jsval option" where
  "try_config_paths h [] = None"
| "try_config_paths h (configPath # paths) =
     (case read_file h configPath of
        Inl e \<Rightarrow> try_config_paths h paths
      | Inr content \<Rightarrow>
          (case json_parse (shell_of h) content of
             None \<Rightarrow> try_config_paths h paths
           | Some v \<Rightarrow> Some (JObj (obj_set (spread v) ''config_path'' (JStr configPath)))))"

definition loadDefaultConfig :: "host \<Rightarrow> jsval" where
  "loadDefaultConfig h =
     (let possiblePaths =
        [path_join [homedir h, ''.styxy'', ''config.json''],
         path_join [homedir h, ''.config'', ''styxy'', ''config.json''],
         ''/etc/styxy/config.json'']
      in case try_config_paths h possiblePaths of
           Some cfg \<Rightarrow> cfg
         | None \<Rightarrow>
             JObj
               [(''daemon'', JObj
                   [(''socket_path'', JStr (path_join [homedir h, ''.styxy'', ''daemon.sock''])),
                    (''port_range'', JObj [(''start'', JNum 3000), (''end'', JNum 9999)])]),
                (''config_path'', JStr ''not found'')])"

text \<open>Lines 16 to 28.\<close>

definition getConfig_shadowed :: "host \<Rightarrow> client \<Rightarrow> jsval \<times> client" where
  "getConfig_shadowed h c =
     (if \<not> truthy (config c)
      then (let cfg =
              (case exec (shell_of h) ''styxy config show --json'' of
                 Inl e \<Rightarrow> loadDefaultConfig h
               | Inr out \<Rightarrow>
                   (case json_parse (shell_of h) out of
                      None \<Rightarrow> loadDefaultConfig h
                    | Some v \<Rightarrow> v))
            in (cfg, c\<lparr>config := cfg\<rparr>))
      else (config c, c))"

text \<open>\<^verbatim>\<open>validateConfig\<close>: \<^verbatim>\<open>isValid\<close> and \<^verbatim>\<open>errors\<close>.\<close>

definition validateConfig :: "jsval \<Rightarrow> error + bool \<times> string list" where
  "validateConfig cfg =
     (case get_prop cfg ''daemon'' of
        None \<Rightarrow> Inl (TypeError (cannot_read cfg ''daemon''))
      | Some d \<Rightarrow>
          (let errors =
             (if \<not> truthy d then [''Missing daemon configuration'']
              else (if \<not> truthy (get_prop_opt d ''socket_path'')
                    then [''Missing daemon socket_path''] else [])
                 @ (if \<not> truthy (get_prop_opt d ''port_range'')
                    then [''Missing port_range configuration''] else []))
           in Inr (errors = [], errors)))"

text \<open>The truthiness of \<^verbatim>\<open>options.validate\<close> and \<^verbatim>\<open>options.show_sensitive\<close>.\<close>

record config_options =
  validate :: bool
  show_sensitive :: bool

definition no_options :: config_options where
  "no_options = \<lparr> validate = False, show_sensitive = False \<rparr>"

text \<open>Lines 347 to 364: what \<^verbatim>\<open>getConfig\<close> does with the configuration it awaited.\<close>

definition present_config :: "jsval \<Rightarrow> config_options \<Rightarrow> error + jsval" where
  "present_config cfg opts =
     (if validate opts
      then (case validateConfig cfg of
              Inl e \<Rightarrow> Inl e
            | Inr (isValid, errors) \<Rightarrow>
                Inr (JObj (obj_set (obj_set (spread cfg)
                             ''validation_errors'' (JArr (map JStr errors)))
                             ''is_valid'' (JBool isValid))))
      else if \<not> show_sensitive opts
      then Inr (JObj (obj_delete (obj_delete (spread cfg) ''secrets'') ''tokens''))
      else Inr cfg)"

text \<open>
  \<^verbatim>\<open>getConfig\<close>, lines 344 to 365. Its first statement awaits
  \<^verbatim>\<open>this.getConfig()\<close>, the same method with the default options, before anything
  else. The first argument is the number of further frames the call stack holds: a call
  that finds none throws the \<^verbatim>\<open>RangeError\<close> of an exhausted stack, which rejects the
  promise of every caller in turn. The fields of the client are not touched.
\<close>

fun getConfig :: "nat \<Rightarrow> client \<Rightarrow> config_options \<Rightarrow> (error + jsval) \<times> client" where
  "getConfig 0 c opts = (Inl (RangeError ''Maximum call stack size exceeded''), c)"
| "getConfig (Suc depth) c opts =
     (case getConfig depth c no_options of
        (Inl e, c') \<Rightarrow> (Inl e, c')
      | (Inr cfg, c') \<Rightarrow> (present_config cfg opts, c'))"

subsection \<open>Connecting and sending\<close>

text \<open>Line 62: \<^verbatim>\<open>config.daemon?.socket_path || path.join(...)\<close>.\<close>

definition socket_path_of :: "host \<Rightarrow> jsval \<Rightarrow> error + jsval" where
  "socket_path_of h cfg =
     (case get_prop cfg ''daemon'' of
        None \<Rightarrow> Inl (TypeError (cannot_read cfg ''daemon''))
      | Some d \<Rightarrow>
          Inr (if truthy (get_prop_opt d ''socket_path'') then get_prop_opt d ''socket_path''
               else JStr (path_join [homedir h, ''.styxy'', ''daemon.sock''])))"

text \<open>
  \<^verbatim>\<open>connectToDaemon\<close>: an open socket is reused; otherwise the configuration is awaited
  and a connection is made, and only the \<^verbatim>\<open>connect\<close> event stores the socket.
\<close>

definition open_connection :: "host \<Rightarrow> client \<Rightarrow> (error + socket) \<times> client" where
  "open_connection h c =
     (case getConfig (stack_depth h) c no_options of
        (Inl e, c') \<Rightarrow> (Inl e, c')
      | (Inr cfg, c') \<Rightarrow>
          (case socket_path_of h cfg of
             Inl e \<Rightarrow> (Inl e, c')
           | Inr socketPath \<Rightarrow>
               (case connect h socketPath of
                  Connected \<Rightarrow>
                    (Inr \<lparr> target = socketPath, readyState = Open \<rparr>,
                     c'\<lparr>daemonSocket := Some \<lparr> target = socketPath, readyState = Open \<rparr>\<rparr>)
                | ConnectError e \<Rightarrow>
                    (Inl (Error (''Daemon not reachable: '' @ message e @ ''. Try ''
                                  @ [CHR 0x27] @ ''styxy daemon start'' @ [CHR 0x27])), c')
                | ConnectTimeout \<Rightarrow>
                    (Inl (Error ''Daemon connection timeout. Check if styxy daemon is running.''),
                     c')
                | ConnectThrows e \<Rightarrow> (Inl e, c'))))"

definition connectToDaemon :: "host \<Rightarrow> client \<Rightarrow> (error + socket) \<times> client" where
  "connectToDaemon h c =
     (case daemonSocket c of
        Some s \<Rightarrow> if readyState s = Open then (Inr s, c) else open_connection h c
      | None \<Rightarrow> open_connection h c)"

text \<open>
  The promise of lines 89 to 109, after the command is written: \<open>response\<close> is what has
  been received. Each chunk is appended and the whole is decoded; the first decodable
  prefix resolves the promise, an \<^verbatim>\<open>error\<close> event rejects it with the error, and the
  timer of line 106 rejects it with \<^verbatim>\<open>Command timeout\<close> once 10000 ms have passed,
  which is all that can still happen after the socket is destroyed or closed. The result is
  how the promise settles, with the \<^verbatim>\<open>readyState\<close> of the socket at that moment.
\<close>

fun await_response ::
  "(string \<Rightarrow> jsval option) \<Rightarrow> string \<Rightarrow> (nat \<times> socket_event) list
     \<Rightarrow> (error + jsval) \<times> ready_state" where
  "await_response parse response [] = (Inl (Error ''Command timeout''), Open)"
| "await_response parse response ((t, ev) # evs) =
     (if 10000 \<le> t then (Inl (Error ''Command timeout''), Open)
      else (case ev of
              SocketError e \<Rightarrow> (Inl e, Closed)
            | SocketTimeout \<Rightarrow> (Inl (Error ''Command timeout''), Closed)
            | SocketClose \<Rightarrow> (Inl (Error ''Command timeout''), Closed)
            | Data d \<Rightarrow>
                (case parse (response @ d) of
                   Some r \<Rightarrow> (Inr r, Open)
                 | None \<Rightarrow> await_response parse (response @ d) evs)))"

text \<open>
  The outcome of \<^verbatim>\<open>sendDaemonCommand\<close>: how its promise settles, the client at that
  moment, and the commands it handed to \<^verbatim>\<open>fallbackToCliCommand\<close>, in order.
\<close>

record send_outcome =
  settled :: "error + jsval"
  client_after :: client
  fallback_calls :: "command list"

text \<open>
  \<^verbatim>\<open>sendDaemonCommand\<close>. The \<^verbatim>\<open>try\<close> block awaits \<^verbatim>\<open>connectToDaemon\<close>, so a
  rejection of that promise reaches the \<^verbatim>\<open>catch\<close> and the CLI fallback. The promise
  of lines 89 to 109 is returned without \<^verbatim>\<open>await\<close>: the function has left the
  \<^verbatim>\<open>try\<close> block when that promise settles, and its rejection is the rejection of
  \<^verbatim>\<open>sendDaemonCommand\<close> itself. The socket written to is the object that
  \<^verbatim>\<open>this.daemonSocket\<close> holds, so the client sees what became of it.
\<close>

definition sendDaemonCommand :: "host \<Rightarrow> client \<Rightarrow> command \<Rightarrow> send_outcome" where
  "sendDaemonCommand h c cmd =
     (case connectToDaemon h c of
        (Inl e, c') \<Rightarrow>
          \<lparr> settled = fallbackToCliCommand (shell_of h) cmd, client_after = c',
            fallback_calls = [cmd] \<rparr>
      | (Inr s, c') \<Rightarrow>
          (case await_response (json_parse (shell_of h)) [] (daemon_events h cmd) of
             (r, st) \<Rightarrow>
               \<lparr> settled = r,
                 client_after = c'\<lparr>daemonSocket := Some (s\<lparr>readyState := st\<rparr>)\<rparr>,
                 fallback_calls = [] \<rparr>))"

text \<open>
  \<^verbatim>\<open>getMetrics\<close>, a caller that does await the promise inside its \<^verbatim>\<open>try\<close>: every
  rejection of \<^verbatim>\<open>sendDaemonCommand\<close> is replaced by the basic metrics.
\<close>

definition basic_metrics :: jsval where
  "basic_metrics =
     JObj [(''total_allocations'', JNum 0),
           (''active_allocations'', JNum 0),
           (''top_service_type'', JStr ''unknown''),
           (''top_project'', JStr ''unknown''),
           (''recommendations'',
              JArr [JStr ''Enable metrics collection in styxy daemon for detailed analytics''])]"

definition getMetrics :: "host \<Rightarrow> client \<Rightarrow> jsval \<Rightarrow> send_outcome" where
  "getMetrics h c opts =
     (let r = sendDaemonCommand h c (Metrics opts)
      in case settled r of
           Inl e \<Rightarrow> r\<lparr>settled := Inr basic_metrics\<rparr>
         | Inr v \<Rightarrow> r)"

subsection \<open>The clients that the code can reach\<close>

text \<open>
  The states of a \<^verbatim>\<open>StyxyClient\<close> that exist in a run: the one the constructor builds,
  and what a call of a method leaves. The fields are written at line 68 only (lines 21 and
  24 belong to the replaced declaration), under \<^verbatim>\<open>connectToDaemon\<close>; the methods
  that reach it are \<^verbatim>\<open>sendDaemonCommand\<close> and, through it, \<^verbatim>\<open>allocatePort\<close>,
  \<^verbatim>\<open>getStatus\<close>, \<^verbatim>\<open>getLogs\<close>, \<^verbatim>\<open>cleanup\<close> and \<^verbatim>\<open>getMetrics\<close>. No other
  module writes the fields.
\<close>

inductive reachable :: "client \<Rightarrow> bool" where
  constructed: "reachable new_client"
| after_getConfig: "reachable c \<Longrightarrow> reachable (snd (getConfig depth c opts))"
| after_connectToDaemon: "reachable c \<Longrightarrow> reachable (snd (connectToDaemon h c))"
| after_sendDaemonCommand: "reachable c \<Longrightarrow> reachable (client_after (sendDaemonCommand h c cmd))"
| after_getMetrics: "reachable c \<Longrightarrow> reachable (client_after (getMetrics h c opts))"

section \<open>The singleton lock\<close>

text \<open>
  \<^verbatim>\<open>SingletonLock\<close> (singleton.js). The state holds the two mutable fields of the
  instance, the number of times the exit handlers were installed, and what the file system
  holds at \<^verbatim>\<open>lockDir\<close> and \<^verbatim>\<open>lockFile\<close>, with the record of the operations that
  changed it.
\<close>

datatype fs_op = Mkdir | Unlink | WriteFile string

record lock_state =
  acquired :: bool
  pid :: int
  exit_handlers :: nat
  lock_dir :: bool
  lock_file :: "string option"
  fs_log :: "fs_op list"

text \<open>
  What the process and the file system present during one call: which of the synchronous
  file operations throw, \<^verbatim>\<open>JSON.parse\<close> (\<open>None\<close> where it throws) and
  \<^verbatim>\<open>JSON.stringify(v, null, 2)\<close>, whether \<^verbatim>\<open>process.kill(v, 0)\<close> returns normally,
  the clock, the host name and \<^verbatim>\<open>process.argv\<close>.
\<close>

record lock_env =
  mkdir_throws :: bool
  read_throws :: bool
  unlink_throws :: bool
  write_throws :: bool
  parse :: "string \<Rightarrow> jsval option"
  stringify :: "jsval \<Rightarrow> string"
  kill0 :: "jsval \<Rightarrow> bool"
  now :: string
  hostname :: string
  argv :: "string list"

text \<open>\<^verbatim>\<open>readLockFile\<close>: the parsed content, \<^verbatim>\<open>null\<close> when reading or parsing throws.\<close>

definition readLockFile :: "lock_env \<Rightarrow> lock_state \<Rightarrow> jsval" where
  "readLockFile env s =
     (case lock_file s of
        None \<Rightarrow> JNull
      | Some content \<Rightarrow>
          if read_throws env then JNull
          else (case parse env content of None \<Rightarrow> JNull | Some v \<Rightarrow> v))"

text \<open>\<^verbatim>\<open>isProcessRunning\<close>: the probe with signal 0; a throw of it means not running.\<close>

definition isProcessRunning :: "lock_env \<Rightarrow> jsval \<Rightarrow> bool" where
  "isProcessRunning env p = kill0 env p"

text \<open>\<^verbatim>\<open>cleanup\<close>: a failing \<^verbatim>\<open>unlinkSync\<close> is logged and swallowed.\<close>

definition cleanup :: "lock_env \<Rightarrow> lock_state \<Rightarrow> lock_state" where
  "cleanup env s =
     (if lock_file s \<noteq> None
      then (if unlink_throws env then s
            else s\<lparr>lock_file := None, fs_log := fs_log s @ [Unlink]\<rparr>)
      else s)"

text \<open>The \<^verbatim>\<open>lockData\<close> of lines 47 to 52.\<close>

definition lock_record :: "lock_env \<Rightarrow> lock_state \<Rightarrow> jsval" where
  "lock_record env s =
     JObj [(''pid'', JNum (pid s)),
           (''started'', JStr (now env)),
           (''hostname'', JStr (hostname env)),
           (''command'', JStr (join (argv env) '' ''))]"

text \<open>Lines 46 to 61: writing the lock file, after the check for a holder.\<close>

definition claim_lock :: "lock_env \<Rightarrow> lock_state \<Rightarrow> bool \<times> lock_state" where
  "claim_lock env s =
     (if write_throws env then (False, s)
      else (True,
            s\<lparr>lock_file := Some (stringify env (lock_record env s)),
              fs_log := fs_log s @ [WriteFile (stringify env (lock_record env s))],
              acquired := True,
              exit_handlers := Suc (exit_handlers s)\<rparr>))"

text \<open>
  \<^verbatim>\<open>acquire\<close>. A throw of \<^verbatim>\<open>mkdirSync\<close> or of \<^verbatim>\<open>writeFileSync\<close> reaches the
  \<^verbatim>\<open>catch\<close> of line 63, which returns \<^verbatim>\<open>false\<close>.
\<close>

definition acquire :: "lock_env \<Rightarrow> lock_state \<Rightarrow> bool \<times> lock_state" where
  "acquire env s0 =
     (if mkdir_throws env then (False, s0)
      else (let s = s0\<lparr>lock_dir := True, fs_log := fs_log s0 @ [Mkdir]\<rparr>
            in if lock_file s \<noteq> None
               then (let lockData = readLockFile env s
                     in if truthy lockData
                           \<and> isProcessRunning env (get_prop_opt lockData ''pid'')
                        then (False, s)
                        else claim_lock env (cleanup env s))
               else claim_lock env s))"

text \<open>\<^verbatim>\<open>release\<close>.\<close>

definition release :: "lock_env \<Rightarrow> lock_state \<Rightarrow> lock_state" where
  "release env s =
     (if \<not> acquired s then s
      else if lock_file s \<noteq> None
      then (if unlink_throws env then s
            else s\<lparr>lock_file := None, fs_log := fs_log s @ [Unlink], acquired := False\<rparr>)
      else s\<lparr>acquired := False\<rparr>)"

text \<open>\<^verbatim>\<open>isAcquired\<close> and \<^verbatim>\<open>getLockInfo\<close>.\<close>

definition isAcquired :: "lock_state \<Rightarrow> bool" where
  "isAcquired s = acquired s"

definition getLockInfo :: "lock_env \<Rightarrow> lock_state \<Rightarrow> jsval" where
  "getLockInfo env s = (if lock_file s = None then JNull else readLockFile env s)"

section \<open>Concrete environments\<close>

text \<open>The inputs at which the properties below are evaluated.\<close>

definition failed_mention_shell :: shell where
  "failed_mention_shell =
     \<lparr> exec = (\<lambda>c. Inr ''Daemon is up\<newline>PID: 4711\<newline>last job failed''),
       json_parse = (\<lambda>s. None) \<rparr>"

definition cli_missing_shell :: shell where
  "cli_missing_shell =
     \<lparr> exec = (\<lambda>c. Inl (ExecError ''Command failed: styxy: not found'' '''')),
       json_parse = (\<lambda>s. None) \<rparr>"


text \<open>
  The command that \<^verbatim>\<open>allocatePort({serviceType: "web", projectName: "demo"})\<close> builds,
  and a shell on which the \<^verbatim>\<open>styxy\<close> of that command prints \<open>out\<close>.
\<close>

definition web_demo :: alloc_context where
  "web_demo =
     \<lparr> serviceType = ''web'', projectName = ''demo'', workingDir = ''/home/dev/demo'',
       claudeSessionId = ''unknown'' \<rparr>"

definition session_prefs :: preferences where
  "session_prefs = \<lparr> port = None, duration = Some ''session'' \<rparr>"

definition demo_meta :: metadata where
  "demo_meta = \<lparr> serviceName = None, timestamp = ''2025-01-01T00:00:00.000Z'' \<rparr>"

definition cli_prints :: "string \<Rightarrow> shell" where
  "cli_prints out =
     \<lparr> exec = (\<lambda>c. if c = ''styxy allocate --service-type web --project demo --duration session''
                     then Inr out
                     else Inl (ExecError ''Command failed: styxy: not found'' '''')),
       json_parse = (\<lambda>s. None) \<rparr>"

text \<open>An output with two port lines.\<close>

definition two_port_lines :: string where
  "two_port_lines = ''Port: 80\<newline>Port: 3042''"

text \<open>A shell on which \<^verbatim>\<open>styxy cleanup --force\<close> prints \<open>out\<close>.\<close>

definition cleanup_prints :: "string \<Rightarrow> shell" where
  "cleanup_prints out =
     \<lparr> exec = (\<lambda>c. if c = ''styxy cleanup --force''
                     then Inr out
                     else Inl (ExecError ''Command failed: styxy: not found'' '''')),
       json_parse = (\<lambda>s. None) \<rparr>"

text \<open>
  A client whose socket is open, and a host whose daemon accepts a connection and a command
  and never answers, so that the idle timer closes the socket; its \<^verbatim>\<open>styxy\<close> is not
  installed.
\<close>

definition connected_client :: client where
  "connected_client =
     \<lparr> daemonSocket = Some \<lparr> target = JStr ''/home/dev/.styxy/daemon.sock'', readyState = Open \<rparr>,
       config = JNull \<rparr>"

definition silent_daemon :: host where
  "silent_daemon =
     \<lparr> shell_of = cli_missing_shell,
       homedir = ''/home/dev'',
       read_file = (\<lambda>p. Inl (Error ''ENOENT: no such file or directory'')),
       connect = (\<lambda>p. Connected),
       daemon_events = (\<lambda>c. [(5000, SocketTimeout)]),
       stack_depth = 10000 \<rparr>"

text \<open>A host whose daemon answers the status command with one decodable chunk.\<close>

definition running_reply :: string where
  \<open>running_reply = ''{"running":true}''\<close>

definition answering_daemon :: host where
  \<open>answering_daemon =
     \<lparr> shell_of = \<lparr> exec = (\<lambda>c. Inl (ExecError ''Command failed: styxy: not found'' [])),
                    json_parse = (\<lambda>s. if s = running_reply
                                      then Some (JObj [(''running'', JBool True)])
                                      else None) \<rparr>,
       homedir = ''/home/dev'',
       read_file = (\<lambda>p. Inl (Error ''ENOENT: no such file or directory'')),
       connect = (\<lambda>p. Connected),
       daemon_events = (\<lambda>c. [(12, Data running_reply)]),
       stack_depth = 10000 \<rparr>\<close>

text \<open>
  A process with pid 100 on a host where it is the only live process, a lock file left by
  the dead process 4242, and the same host with an unwritable lock directory.
\<close>

definition demo_record :: jsval where
  "demo_record =
     JObj [(''pid'', JNum 100),
           (''started'', JStr ''2025-01-01T00:00:00.000Z''),
           (''hostname'', JStr ''devbox''),
           (''command'', JStr ''node /srv/styxy-server/src/index.js'')]"

definition stale_content :: string where
  \<open>stale_content = ''{"pid": 4242}''\<close>

definition own_content :: string where
  \<open>own_content = ''{"pid": 100}''\<close>

definition demo_env :: lock_env where
  \<open>demo_env =
     \<lparr> mkdir_throws = False, read_throws = False, unlink_throws = False, write_throws = False,
       parse = (\<lambda>s. if s = stale_content then Some (JObj [(''pid'', JNum 4242)])
                    else if s = own_content then Some demo_record
                    else None),
       stringify = (\<lambda>v. ''{"pid": '' @ (case get_prop_opt v ''pid'' of
                                            JNum n \<Rightarrow> show_int n | _ \<Rightarrow> ''null'') @ ''}''),
       kill0 = (\<lambda>v. v = JNum 100),
       now = ''2025-01-01T00:00:00.000Z'',
       hostname = ''devbox'',
       argv = [''node'', ''/srv/styxy-server/src/index.js''] \<rparr>\<close>

definition readonly_env :: lock_env where
  "readonly_env = demo_env \<lparr> mkdir_throws := False, unlink_throws := True, write_throws := True \<rparr>"

definition no_home_env :: lock_env where
  "no_home_env = demo_env \<lparr> mkdir_throws := True \<rparr>"

definition fresh_state :: lock_state where
  "fresh_state =
     \<lparr> acquired = False, pid = 100, exit_handlers = 0, lock_dir = False, lock_file = None,
       fs_log = [] \<rparr>"

definition stale_state :: lock_state where
  \<open>stale_state =
     \<lparr> acquired = False, pid = 100, exit_handlers = 0, lock_dir = True,
       lock_file = Some stale_content, fs_log = [] \<rparr>\<close>

text \<open>
  A shell whose \<^verbatim>\<open>styxy status\<close> knows no \<^verbatim>\<open>--json\<close> flag and prints text, and one
  whose \<^verbatim>\<open>styxy status --json\<close> prints a structured status.
\<close>

definition status_text_shell :: shell where
  "status_text_shell =
     \<lparr> exec = (\<lambda>c. if c = ''styxy status''
                     then Inr ''Daemon running\<newline>PID: 4711''
                     else Inl (ExecError ''Command failed: unknown option --json'' '''')),
       json_parse = (\<lambda>s. None) \<rparr>"

definition status_json_shell :: shell where
  \<open>status_json_shell =
     \<lparr> exec = (\<lambda>c. if c = ''styxy status --json''
                     then Inr running_reply
                     else Inl (ExecError ''Command failed'' [])),
       json_parse = (\<lambda>s. if s = running_reply
                         then Some (JObj [(''running'', JBool True)])
                         else None) \<rparr>\<close>

section \<open>Properties of the CLI fallback\<close>

subsection \<open>Auxiliary facts about strings\<close>

lemma str_includes_sublist: "str_includes s sub \<longleftrightarrow> sublist sub s"
  by (induction s) (auto simp: sublist_Cons_right)

text \<open>
  Checks of the string model: joining the pieces of a split gives the string back; further
  down, every string with a digit has a first maximal run of digits.
\<close>

lemma split_from_not_Nil: "split_from sep cur s \<noteq> []"
  by (induction sep cur s rule: split_from.induct) auto

lemma join_Cons: "xs \<noteq> [] \<Longrightarrow> join (x # xs) sep = x @ sep @ join xs sep"
  by (cases xs) simp_all

lemma join_split_from: "sep \<noteq> [] \<Longrightarrow> join (split_from sep cur s) sep = cur @ s"
proof (induction sep cur s rule: split_from.induct)
  case (1 sep cur)
  show ?case by simp
next
  case (2 sep cur c cs)
  show ?case
  proof (cases "prefix sep (c # cs)")
    case True
    then have e: "sep @ drop (length sep) (c # cs) = c # cs"
      by (metis append_eq_conv_conj prefix_def)
    have "join (split_from sep cur (c # cs)) sep
            = cur @ sep @ join (split_from sep [] (drop (length sep) (c # cs))) sep"
      using True "2.prems" by (simp add: join_Cons split_from_not_Nil)
    also have "\<dots> = cur @ sep @ drop (length sep) (c # cs)"
      using "2.IH"(1) True "2.prems" by simp
    finally show ?thesis
      using e by simp
  next
    case False
    then show ?thesis
      using "2.IH"(2) "2.prems" by simp
  qed
qed

lemma join_split: "sep \<noteq> [] \<Longrightarrow> join (split s sep) sep = s"
  by (simp add: split_def join_split_from)

subsection \<open>Auxiliary facts about numbers and digits\<close>

text \<open>The decimal digits of a number write that number.\<close>

lemma decimal_value_snoc: "decimal_value (ds @ [d]) = 10 * decimal_value ds + digit_val d"
  by (simp add: decimal_value_def)

lemma digit_val_char_of: "d < 10 \<Longrightarrow> digit_val (char_of (48 + d)) = d"
  by (simp add: digit_val_def)

lemma decimal_value_show_nat: "decimal_value (show_nat n) = n"
proof (induction n rule: show_nat.induct)
  case (1 n)
  show ?case
  proof (cases "n < 10")
    case True
    then show ?thesis
      by (simp add: show_nat.simps [of n] decimal_value_def digit_val_char_of)
  next
    case False
    then have "decimal_value (show_nat n) = 10 * decimal_value (show_nat (n div 10)) + n mod 10"
      by (simp add: show_nat.simps [of n] decimal_value_snoc digit_val_char_of)
    also have "\<dots> = n"
      using "1.IH" False by simp
    finally show ?thesis .
  qed
qed

text \<open>
  \<^verbatim>\<open>parseInt\<close> is exact on a run of digits that writes a number up to \<open>2^53\<close>, and
  a number below \<open>2^53\<close> prints as its digits.
\<close>

lemma bit_length_2_53: "bit_length 9007199254740992 = 54"
  by (simp add: bit_length.simps)

lemma to_double_exact: "n \<le> 2 ^ 53 \<Longrightarrow> to_double n = Some n"
proof (cases "n < 2 ^ 53")
  case True
  then show ?thesis
    by (simp add: to_double_def)
next
  case False
  moreover assume "n \<le> 2 ^ 53"
  ultimately have "n = 9007199254740992"
    by simp
  then show ?thesis
    by (simp add: to_double_def bit_length_2_53 Let_def)
qed

lemma parseInt_exact: "decimal_value ds \<le> 2 ^ 53 \<Longrightarrow> parseInt ds = Finite (int (decimal_value ds))"
  by (simp add: parseInt_def to_double_exact)

lemma parseInt_show_nat: "n < 2 ^ 53 \<Longrightarrow> parseInt (show_nat n) = Finite (int n)"
  by (simp add: parseInt_exact decimal_value_show_nat)

lemma show_int_exact: "n < 2 ^ 53 \<Longrightarrow> show_int (int n) = show_nat n"
  by (simp add: show_int_def nat_text_def to_double_def double_text_def)

text \<open>
  Above \<open>2^53\<close> the result of \<^verbatim>\<open>parseInt\<close> is within half a unit of the last of the
  53 binary digits it keeps, and it is \<^verbatim>\<open>Infinity\<close> only from \<open>2^1023\<close> on.
\<close>

lemma bit_length_upper: "n < 2 ^ bit_length n"
proof (induction n rule: bit_length.induct)
  case (1 n)
  show ?case
  proof (cases "n = 0")
    case True
    then show ?thesis by (simp add: bit_length.simps)
  next
    case False
    with 1 have "n div 2 < 2 ^ bit_length (n div 2)" by simp
    then have "n < 2 * 2 ^ bit_length (n div 2)" by linarith
    with False show ?thesis by (simp add: bit_length.simps [of n])
  qed
qed

lemma bit_length_lower: "n \<noteq> 0 \<Longrightarrow> 2 ^ (bit_length n - 1) \<le> n"
proof (induction n rule: bit_length.induct)
  case (1 n)
  show ?case
  proof (cases "n div 2 = 0")
    case True
    with 1(2) show ?thesis by (simp add: bit_length.simps [of n] bit_length.simps [of 0])
  next
    case False
    with 1 have "2 ^ (bit_length (n div 2) - 1) \<le> n div 2" by simp
    moreover have "bit_length (n div 2) \<noteq> 0" using False by (simp add: bit_length.simps [of "n div 2"])
    ultimately have "2 ^ (bit_length (n div 2)) \<le> 2 * (n div 2)"
      by (cases "bit_length (n div 2)") simp_all
    then have "2 ^ (bit_length (n div 2)) \<le> n" by linarith
    with 1(2) show ?thesis by (simp add: bit_length.simps [of n])
  qed
qed

lemma to_double_unfold:
  assumes "\<not> n < 2 ^ 53"
  shows "to_double n =
           (if 2 ^ 1024 \<le> (if 2 ^ (bit_length n - 53 - 1) < n mod 2 ^ (bit_length n - 53)
                                \<or> (n mod 2 ^ (bit_length n - 53) = 2 ^ (bit_length n - 53 - 1)
                                    \<and> odd (n div 2 ^ (bit_length n - 53)))
                             then n div 2 ^ (bit_length n - 53) + 1
                             else n div 2 ^ (bit_length n - 53)) * 2 ^ (bit_length n - 53)
            then None
            else Some ((if 2 ^ (bit_length n - 53 - 1) < n mod 2 ^ (bit_length n - 53)
                           \<or> (n mod 2 ^ (bit_length n - 53) = 2 ^ (bit_length n - 53 - 1)
                               \<and> odd (n div 2 ^ (bit_length n - 53)))
                        then n div 2 ^ (bit_length n - 53) + 1
                        else n div 2 ^ (bit_length n - 53)) * 2 ^ (bit_length n - 53)))"
  unfolding to_double_def Let_def using assms by (simp only: if_False)

lemma to_double_near:
  assumes "to_double n = Some x"
  shows "2 * (x - n) \<le> 2 ^ (bit_length n - 53) \<and> 2 * (n - x) \<le> 2 ^ (bit_length n - 53)"
proof (cases "n < 2 ^ 53")
  case True
  with assms show ?thesis by (simp add: to_double_def)
next
  case False
  define k where "k = bit_length n - 53"
  define P :: nat where "P = 2 ^ k"
  define q where "q = n div P"
  define r where "r = n mod P"
  define h :: nat where "h = 2 ^ (k - 1)"
  define m where "m = (if h < r \<or> (r = h \<and> odd q) then q + 1 else q)"
  have n: "n = q * P + r" by (simp add: q_def r_def)
  have r: "r < P" by (simp add: r_def P_def)
  have hP: "(P = 1 \<and> h = 1) \<or> P = 2 * h"
    by (cases k) (simp_all add: P_def h_def)
  have "to_double n = (if 2 ^ 1024 \<le> m * P then None else Some (m * P))"
    unfolding m_def h_def r_def q_def P_def k_def by (rule to_double_unfold [OF False])
  with assms have x: "x = m * P"
    by (metis option.distinct(1) option.inject)
  show ?thesis
  proof (cases "h < r \<or> (r = h \<and> odd q)")
    case True
    then have "m = q + 1" by (auto simp: m_def)
    then have "x = q * P + P" by (simp add: x)
    with True n r hP show ?thesis
      unfolding k_def [symmetric] P_def [symmetric] by auto
  next
    case False
    then have "m = q" by (auto simp: m_def)
    then have "x = q * P" by (simp add: x)
    with False n r hP show ?thesis
      unfolding k_def [symmetric] P_def [symmetric] by auto
  qed
qed

lemma to_double_None:
  assumes "to_double n = None"
  shows "2 ^ 1023 \<le> n"
proof -
  from assms have big: "\<not> n < 2 ^ 53" by (auto simp: to_double_def)
  define k where "k = bit_length n - 53"
  define q where "q = n div 2 ^ k"
  define m where "m = (if 2 ^ (k - 1) < n mod 2 ^ k \<or> (n mod 2 ^ k = 2 ^ (k - 1) \<and> odd q)
                       then q + 1 else q)"
  have "53 \<le> bit_length n"
  proof (rule ccontr)
    assume "\<not> 53 \<le> bit_length n"
    then have "bit_length n \<le> 53" by simp
    then have "(2::nat) ^ bit_length n \<le> 2 ^ 53" by (rule power_increasing) simp
    with bit_length_upper [of n] big show False by linarith
  qed
  then have bl: "bit_length n = k + 53" by (simp add: k_def)
  have "n < 2 ^ k * 2 ^ 53" using bit_length_upper [of n] by (simp only: bl power_add)
  then have q: "q < 2 ^ 53" unfolding q_def by (simp only: less_mult_imp_div_less mult.commute)
  have "to_double n = (if 2 ^ 1024 \<le> m * 2 ^ k then None else Some (m * 2 ^ k))"
    unfolding m_def q_def k_def by (rule to_double_unfold [OF big])
  with assms have m2: "2 ^ 1024 \<le> m * 2 ^ k"
    by (metis option.distinct(1))
  have "m \<le> q + 1" by (simp add: m_def)
  with q have "m \<le> 2 ^ 53" by linarith
  then have "m * 2 ^ k \<le> 2 ^ 53 * 2 ^ k" by (rule mult_right_mono) simp
  with m2 have "(2::nat) ^ 1024 \<le> 2 ^ 53 * 2 ^ k" by (rule le_trans)
  then have p: "(2::nat) ^ 1024 \<le> 2 ^ (53 + k)" by (simp only: power_add)
  have "1024 \<le> 53 + k"
  proof (rule power_le_imp_le_exp)
    show "(1::nat) < 2" by simp
    show "(2::nat) ^ 1024 \<le> 2 ^ (53 + k)" by (rule p)
  qed
  then have "1023 \<le> bit_length n - 1" by (simp add: bl)
  then have "(2::nat) ^ 1023 \<le> 2 ^ (bit_length n - 1)" by (rule power_increasing) simp
  moreover have "n \<noteq> 0" using big by auto
  ultimately show ?thesis using bit_length_lower [of n] by (rule_tac le_trans)
qed

lemma parseInt_near:
  assumes "parseInt ds = Finite i"
  shows "2 * \<bar>i - int (decimal_value ds)\<bar> \<le> 2 ^ (bit_length (decimal_value ds) - 53)"
proof -
  from assms obtain x where x: "to_double (decimal_value ds) = Some x" and i: "i = int x"
    by (auto simp: parseInt_def split: option.splits)
  let ?n = "decimal_value ds"
  let ?k = "bit_length ?n - 53"
  from to_double_near [OF x]
  have b: "2 * (x - ?n) \<le> 2 ^ ?k" "2 * (?n - x) \<le> 2 ^ ?k"
    by blast+
  show ?thesis
  proof (cases "x \<le> ?n")
    case True
    then have "2 * \<bar>i - int ?n\<bar> = int (2 * (?n - x))"
      by (simp add: i)
    also have "\<dots> \<le> int (2 ^ ?k)"
      using b(2) by (simp only: of_nat_le_iff)
    finally show ?thesis
      by simp
  next
    case False
    then have "2 * \<bar>i - int ?n\<bar> = int (2 * (x - ?n))"
      by (simp add: i)
    also have "\<dots> \<le> int (2 ^ ?k)"
      using b(1) by (simp only: of_nat_le_iff)
    finally show ?thesis
      by simp
  qed
qed

lemma parseInt_Infinity: "parseInt ds = Infinity \<Longrightarrow> 2 ^ 1023 \<le> decimal_value ds"
  by (rule to_double_None) (auto simp: parseInt_def split: option.splits)

text \<open>
  Checks of the printing of numbers: a double prints the shortest decimal that reads back
  as it, in exponent form from \<open>10^21\<close> on.
\<close>

lemma digit_chars:
  "char_of (48::nat) = CHR ''0''" "char_of (49::nat) = CHR ''1''" "char_of (50::nat) = CHR ''2''"
  "char_of (51::nat) = CHR ''3''" "char_of (52::nat) = CHR ''4''" "char_of (53::nat) = CHR ''5''"
  "char_of (54::nat) = CHR ''6''" "char_of (55::nat) = CHR ''7''" "char_of (56::nat) = CHR ''8''"
  "char_of (57::nat) = CHR ''9''"
  by code_simp+

lemmas number_eval =
  show_int_def nat_text_def to_double_def double_text_def shortest_decimal_def
  shortest_candidate_def exponent_text_def Let_def bit_length.simps show_nat.simps digit_chars
  List.map_filter_simps upt_rec

lemma show_int_2_60: "show_int 1152921504606846976 = ''1152921504606847000''"
  by (simp add: number_eval)

lemma show_int_1e21: "show_int 1000000000000000000000 = ''1e+21''"
  by (simp add: number_eval)

lemma show_int_2_70: "show_int 1180591620717411303424 = ''1.1805916207174113e+21''"
  by (simp add: number_eval)

lemma show_int_2_53_1: "show_int 9007199254740993 = ''9007199254740992''"
  by (simp add: number_eval)

lemma show_int_neg: "show_int (- 42) = ''-42''"
  by (simp add: number_eval)

lemma show_nat_digits: "\<forall>c\<in>set (show_nat n). is_digit c"
proof (induction n rule: show_nat.induct)
  case (1 n)
  have d: "is_digit (char_of (48 + k))" if "k < 10" for k :: nat
  proof -
    have "map char_of [48, 49, 50, 51, 52, 53, 54, 55, 56, 57 :: nat] = ''0123456789''"
      by code_simp
    moreover from that have "48 + k \<in> set [48, 49, 50, 51, 52, 53, 54, 55, 56, 57 :: nat]"
      by auto
    then have "char_of (48 + k) \<in> set (map char_of [48, 49, 50, 51, 52, 53, 54, 55, 56, 57 :: nat])"
      unfolding set_map by (rule imageI)
    ultimately show ?thesis
      by (simp only: is_digit_def)
  qed
  show ?case
  proof (cases "n < 10")
    case True
    then show ?thesis by (simp add: show_nat.simps [of n] d)
  next
    case False
    then show ?thesis
      using "1.IH" by (simp add: show_nat.simps [of n] d)
  qed
qed

lemma first_digit_run_exists:
  assumes "\<exists>c\<in>set l. is_digit c"
  shows "\<exists>pre ds rest. l = pre @ ds @ rest \<and> (\<forall>c\<in>set pre. \<not> is_digit c) \<and> ds \<noteq> []
           \<and> (\<forall>c\<in>set ds. is_digit c) \<and> (rest = [] \<or> \<not> is_digit (hd rest))"
proof -
  let ?pre = "takeWhile (\<lambda>c. \<not> is_digit c) l"
  let ?r = "dropWhile (\<lambda>c. \<not> is_digit c) l"
  let ?ds = "takeWhile is_digit ?r"
  let ?rest = "dropWhile is_digit ?r"
  have r: "?r \<noteq> []"
    using assms by (simp add: dropWhile_eq_Nil_conv)
  then have "is_digit (hd ?r)"
    using hd_dropWhile [of "\<lambda>c. \<not> is_digit c" l] by simp
  with r have ds: "?ds \<noteq> []"
    by (cases ?r) auto
  have "l = ?pre @ ?ds @ ?rest"
    by simp
  moreover have "\<forall>c\<in>set ?pre. \<not> is_digit c"
    by (auto dest: set_takeWhileD)
  moreover have "\<forall>c\<in>set ?ds. is_digit c"
    by (auto dest: set_takeWhileD)
  moreover have "?rest = [] \<or> \<not> is_digit (hd ?rest)"
    using hd_dropWhile [of is_digit ?r] by blast
  ultimately show ?thesis
    using ds by blast
qed

subsection \<open>Status\<close>

lemma daemon_running_field:
  "get_prop (parseStatusOutput output) ''daemon_running''
     = Some (JBool (\<not> sublist ''not running'' output \<and> \<not> sublist ''failed'' output))"
  by (simp add: parseStatusOutput_def Let_def str_includes_sublist)

text \<open>
  C10. \<^verbatim>\<open>parseStatusOutput\<close> reports \<^verbatim>\<open>daemon_running = true\<close> exactly when the
  plain-text output contains neither \<^verbatim>\<open>not running\<close> nor \<^verbatim>\<open>failed\<close> as a
  substring. So when the structured invocation gives nothing decodable and the plain-text
  invocation succeeds with an output that mentions \<^verbatim>\<open>failed\<close> anywhere,
  \<^verbatim>\<open>cliGetStatus\<close> reports the daemon as not running.
\<close>

theorem parseStatusOutput_daemon_running:
  "(get_prop (parseStatusOutput output) ''daemon_running'' = Some (JBool True)
      \<longleftrightarrow> \<not> sublist ''not running'' output \<and> \<not> sublist ''failed'' output)
   \<and> (get_prop (parseStatusOutput output) ''daemon_running'' = Some (JBool False)
      \<longleftrightarrow> sublist ''not running'' output \<or> sublist ''failed'' output)
   \<and> (exec sh ''styxy status --json'' = Inr out \<and> json_parse sh out = None
        \<and> exec sh ''styxy status'' = Inr output \<and> sublist ''failed'' output
      \<longrightarrow> get_prop (cliGetStatus sh) ''daemon_running'' = Some (JBool False))"
  by (auto simp: daemon_running_field cliGetStatus_def)

theorem parseStatusOutput_daemon_running_witness:
  "get_prop (cliGetStatus failed_mention_shell) ''daemon_running'' = Some (JBool False)"
proof -
  have "sublist ''failed'' ''Daemon is up\<newline>PID: 4711\<newline>last job failed''"
    by code_simp
  then show ?thesis
    using parseStatusOutput_daemon_running
      [of "''Daemon is up\<newline>PID: 4711\<newline>last job failed''" failed_mention_shell
          "''Daemon is up\<newline>PID: 4711\<newline>last job failed''"]
    by (simp add: failed_mention_shell_def)
qed

text \<open>
  C7. For the status command, when the structured invocation fails (it is rejected, or its
  output does not decode) and the plain-text invocation is rejected, the CLI fallback
  returns normally, with the degraded result: \<^verbatim>\<open>daemon_running\<close> false,
  \<^verbatim>\<open>active_ports\<close> empty and one entry in \<^verbatim>\<open>recent_errors\<close>.
\<close>

theorem cliGetStatus_degraded:
  assumes "exec sh ''styxy status --json'' = Inl e1
             \<or> (exec sh ''styxy status --json'' = Inr out \<and> json_parse sh out = None)"
    and "exec sh ''styxy status'' = Inl e2"
  shows "fallbackToCliCommand sh (Status a b) =
           Inr (JObj
             [(''daemon_running'', JBool False),
              (''error'', JStr (''Status check failed: '' @ message e2)),
              (''active_ports'', JArr []),
              (''recent_errors'', JArr [JStr (''CLI error: '' @ message e2)])])"
  using assms by (auto simp: cliGetStatus_def)

theorem cliGetStatus_degraded_witness:
  "fallbackToCliCommand cli_missing_shell (Status True True) =
     Inr (JObj
       [(''daemon_running'', JBool False),
        (''error'', JStr ''Status check failed: Command failed: styxy: not found''),
        (''active_ports'', JArr []),
        (''recent_errors'', JArr [JStr ''CLI error: Command failed: styxy: not found''])])"
  using cliGetStatus_degraded
    [of cli_missing_shell "ExecError ''Command failed: styxy: not found'' ''''" undefined
        "ExecError ''Command failed: styxy: not found'' ''''" True True]
  by (simp add: cli_missing_shell_def)

subsection \<open>Allocation\<close>

lemma find_first:
  "\<forall>l\<in>set before. \<not> P l \<Longrightarrow> P x \<Longrightarrow> find P (before @ x # after) = Some x"
  by (induction before) auto

lemma find_none: "\<forall>l\<in>set ls. \<not> P l \<Longrightarrow> find P ls = None"
  by (induction ls) auto

lemma match_digits_run:
  assumes "\<forall>c\<in>set pre. \<not> is_digit c" and "ds \<noteq> []" and "\<forall>c\<in>set ds. is_digit c"
    and "rest = [] \<or> \<not> is_digit (hd rest)"
  shows "match_digits (pre @ ds @ rest) = Some ds"
proof -
  from assms(2,3) have hd: "is_digit (hd ds)"
    by (cases ds) auto
  have "dropWhile (\<lambda>c. \<not> is_digit c) (pre @ ds @ rest) = ds @ rest"
    using assms(1,2) hd by (cases ds) (auto simp: dropWhile_append3)
  moreover have "takeWhile is_digit (ds @ rest) = ds"
    using assms(3,4) by (cases rest) (auto simp: takeWhile_append2)
  ultimately show ?thesis
    using assms(2) by (simp add: match_digits_def)
qed

lemma match_digits_none:
  "\<forall>c\<in>set s. \<not> is_digit c \<Longrightarrow> match_digits s = None"
  by (simp add: match_digits_def)

text \<open>
  C9 (amended). Take an allocate output whose first line containing \<^verbatim>\<open>Port:\<close> is
  \<open>portLine\<close>. If \<open>portLine\<close> has a digit, the extracted port is the number that
  \<^verbatim>\<open>parseInt\<close> gives for its first maximal run of digits \<open>ds\<close>, wherever on the line
  that run stands (before the marker, inside another token): the integer that the run writes
  when that is at most \<open>2^53\<close>, and in general the double nearest to that integer (off by
  at most half a unit of the last binary digit kept), \<^verbatim>\<open>Infinity\<close> beyond the doubles. \<^verbatim>\<open>cliAllocatePort\<close> then returns the allocation
  for that number, unless the number is 0, which line 155 takes for a missing port. If
  \<open>portLine\<close> has no digit, the failure is the \<^verbatim>\<open>TypeError\<close> of indexing
  \<^verbatim>\<open>null\<close>, wrapped by the outer \<^verbatim>\<open>catch\<close>, and not the
  \<^verbatim>\<open>Failed to parse allocated port\<close> error of line 156.
\<close>

theorem cliAllocatePort_first_digit_run:
  assumes "exec sh (allocate_command_line ctx prefs) = Inr out"
    and "split (trim out) ''\<newline>'' = before @ portLine # after"
    and "\<forall>l\<in>set before. \<not> sublist ''Port:'' l"
    and "sublist ''Port:'' portLine"
  shows "(portLine = pre @ ds @ rest \<and> (\<forall>c\<in>set pre. \<not> is_digit c) \<and> ds \<noteq> []
            \<and> (\<forall>c\<in>set ds. is_digit c) \<and> (rest = [] \<or> \<not> is_digit (hd rest))
          \<longrightarrow> extracted_port out = Inr (Some (parseInt ds))
              \<and> (decimal_value ds \<le> 2 ^ 53 \<longrightarrow> parseInt ds = Finite (int (decimal_value ds)))
              \<and> (case parseInt ds of
                    Finite i \<Rightarrow>
                      2 * \<bar>i - int (decimal_value ds)\<bar> \<le> 2 ^ (bit_length (decimal_value ds) - 53)
                  | Infinity \<Rightarrow> 2 ^ 1023 \<le> decimal_value ds)
              \<and> cliAllocatePort sh ctx prefs =
                  (if parseInt ds = Finite 0
                   then Inl (Error ''CLI allocation failed: Failed to parse allocated port from styxy output'')
                   else Inr (allocation_object ctx prefs out (parseInt ds))))
       \<and> ((\<forall>c\<in>set portLine. \<not> is_digit c)
          \<longrightarrow> extracted_port out = Inl (TypeError null_index_message)
              \<and> cliAllocatePort sh ctx prefs =
                  Inl (Error (''CLI allocation failed: '' @ null_index_message))
              \<and> cliAllocatePort sh ctx prefs \<noteq>
                  Inl (Error ''CLI allocation failed: Failed to parse allocated port from styxy output''))"
proof -
  have f: "find (\<lambda>line. str_includes line ''Port:'') (split (trim out) ''\<newline>'') = Some portLine"
    unfolding assms(2) using assms(3,4) by (intro find_first) (simp_all add: str_includes_sublist)
  have p: "decimal_value ds \<le> 2 ^ 53 \<longrightarrow> parseInt ds = Finite (int (decimal_value ds))"
    by (simp add: parseInt_exact)
  have q: "(case parseInt ds of
                    Finite i \<Rightarrow>
                      2 * \<bar>i - int (decimal_value ds)\<bar> \<le> 2 ^ (bit_length (decimal_value ds) - 53)
                  | Infinity \<Rightarrow> 2 ^ 1023 \<le> decimal_value ds)"
    using parseInt_near [of ds] parseInt_Infinity [of ds] by (cases "parseInt ds") simp_all
  have a: "extracted_port out = Inr (Some (parseInt ds))
             \<and> cliAllocatePort sh ctx prefs =
                  (if parseInt ds = Finite 0
                   then Inl (Error ''CLI allocation failed: Failed to parse allocated port from styxy output'')
                   else Inr (allocation_object ctx prefs out (parseInt ds)))"
    if "portLine = pre @ ds @ rest \<and> (\<forall>c\<in>set pre. \<not> is_digit c) \<and> ds \<noteq> []
            \<and> (\<forall>c\<in>set ds. is_digit c) \<and> (rest = [] \<or> \<not> is_digit (hd rest))"
    using that f assms(1)
    by (auto simp: extracted_port_def cliAllocatePort_def allocate_try_def Let_def
                   match_digits_run)
  have b: "extracted_port out = Inl (TypeError null_index_message)
              \<and> cliAllocatePort sh ctx prefs =
                  Inl (Error (''CLI allocation failed: '' @ null_index_message))
              \<and> cliAllocatePort sh ctx prefs \<noteq>
                  Inl (Error ''CLI allocation failed: Failed to parse allocated port from styxy output'')"
    if "\<forall>c\<in>set portLine. \<not> is_digit c"
    using that f assms(1)
    by (auto simp: extracted_port_def cliAllocatePort_def allocate_try_def Let_def
                   match_digits_none null_index_message_def)
  from a b p q show ?thesis
    by blast
qed

lemma web_demo_command:
  "allocate_command_line web_demo session_prefs
     = ''styxy allocate --service-type web --project demo --duration session''"
proof -
  have "allocate_args web_demo session_prefs =
          [''allocate'', ''--service-type'', ''web'', ''--project'', ''demo'',
           ''--duration'', ''session'']"
    by (simp add: allocate_args_def web_demo_def session_prefs_def)
  then show ?thesis
    by (simp add: allocate_command_line_def)
qed

lemma exec_cli_prints:
  "exec (cli_prints out) (allocate_command_line web_demo session_prefs) = Inr out"
  by (simp add: web_demo_command cli_prints_def)

lemma show_nat_3042: "show_nat 3042 = ''3042''"
  by code_simp

lemma show_int_3042: "show_int 3042 = ''3042''"
  using show_int_exact [of 3042] by (simp add: show_nat_3042)

lemma bit_length_2_53_1: "bit_length 9007199254740993 = 54"
  by (simp add: bit_length.simps)

lemma to_double_2_53_1: "to_double 9007199254740993 = Some 9007199254740992"
  by (simp add: to_double_def bit_length_2_53_1 Let_def)

lemma decimal_value_2_53_1: "decimal_value ''9007199254740993'' = 9007199254740993"
  by (simp add: decimal_value_def digit_val_def)

lemma parseInt_2_53_1: "parseInt ''9007199254740993'' = Finite 9007199254740992"
  by (simp add: parseInt_def decimal_value_2_53_1 to_double_2_53_1)

theorem cliAllocatePort_first_digit_run_witness:
  "cliAllocatePort (cli_prints ''web3 Port: 3042'') web_demo session_prefs
     = Inr (allocation_object web_demo session_prefs ''web3 Port: 3042'' (Finite 3))
   \<and> cliAllocatePort (cli_prints ''Port: none'') web_demo session_prefs
     = Inl (Error (''CLI allocation failed: '' @ null_index_message))
   \<and> cliAllocatePort (cli_prints ''Port: 9007199254740993'') web_demo session_prefs
     = Inr (allocation_object web_demo session_prefs ''Port: 9007199254740993''
              (Finite 9007199254740992))"
proof -
  have l3: "split (trim ''Port: 9007199254740993'') ''\<newline>'' = [] @ ''Port: 9007199254740993'' # []"
    by code_simp
  have s3: "sublist ''Port:'' ''Port: 9007199254740993''"
    by code_simp
  have d3: "''Port: 9007199254740993'' = ''Port: '' @ ''9007199254740993'' @ []
      \<and> (\<forall>c\<in>set ''Port: ''. \<not> is_digit c) \<and> ''9007199254740993'' \<noteq> []
      \<and> (\<forall>c\<in>set ''9007199254740993''. is_digit c) \<and> ([] = [] \<or> \<not> is_digit (hd []))"
    by (simp add: is_digit_def)
  have l1: "split (trim ''web3 Port: 3042'') ''\<newline>'' = [] @ ''web3 Port: 3042'' # []"
    by code_simp
  have s1: "sublist ''Port:'' ''web3 Port: 3042''"
    by code_simp
  have d1: "''web3 Port: 3042'' = ''web'' @ ''3'' @ '' Port: 3042''
      \<and> (\<forall>c\<in>set ''web''. \<not> is_digit c) \<and> ''3'' \<noteq> [] \<and> (\<forall>c\<in>set ''3''. is_digit c)
      \<and> ('' Port: 3042'' = [] \<or> \<not> is_digit (hd '' Port: 3042''))"
    by (simp add: is_digit_def)
  have v1: "decimal_value ''3'' = 3"
    by (simp add: decimal_value_def digit_val_def)
  have l2: "split (trim ''Port: none'') ''\<newline>'' = [] @ ''Port: none'' # []"
    by code_simp
  have s2: "sublist ''Port:'' ''Port: none''"
    by code_simp
  have d2: "\<forall>c\<in>set ''Port: none''. \<not> is_digit c"
    by (simp add: is_digit_def)
  have b0: "\<forall>l\<in>set []. \<not> sublist ''Port:'' l"
    by simp
  note t1 = cliAllocatePort_first_digit_run
         [OF exec_cli_prints l1 b0 s1, of "''web''" "''3''" "'' Port: 3042''"]
  from t1 d1 have e: "decimal_value ''3'' \<le> 2 ^ 53 \<longrightarrow> parseInt ''3'' = Finite (int (decimal_value ''3''))"
    by blast
  have p1: "parseInt ''3'' = Finite 3"
    using e by (simp add: v1)
  from t1 d1 have "cliAllocatePort (cli_prints ''web3 Port: 3042'') web_demo session_prefs =
      (if parseInt ''3'' = Finite 0
       then Inl (Error ''CLI allocation failed: Failed to parse allocated port from styxy output'')
       else Inr (allocation_object web_demo session_prefs ''web3 Port: 3042'' (parseInt ''3'')))"
    by blast
  then have a: "cliAllocatePort (cli_prints ''web3 Port: 3042'') web_demo session_prefs
     = Inr (allocation_object web_demo session_prefs ''web3 Port: 3042'' (Finite 3))"
    by (simp only: p1) simp
  note t2 = cliAllocatePort_first_digit_run [OF exec_cli_prints l2 b0 s2]
  from t2 d2
  have b: "cliAllocatePort (cli_prints ''Port: none'') web_demo session_prefs
     = Inl (Error (''CLI allocation failed: '' @ null_index_message))"
    by blast
  note t3 = cliAllocatePort_first_digit_run
         [OF exec_cli_prints l3 b0 s3, of "''Port: ''" "''9007199254740993''" "[]"]
  from t3 d3 have "cliAllocatePort (cli_prints ''Port: 9007199254740993'') web_demo session_prefs =
      (if parseInt ''9007199254740993'' = Finite 0
       then Inl (Error ''CLI allocation failed: Failed to parse allocated port from styxy output'')
       else Inr (allocation_object web_demo session_prefs ''Port: 9007199254740993''
                   (parseInt ''9007199254740993'')))"
    by blast
  then have c: "cliAllocatePort (cli_prints ''Port: 9007199254740993'') web_demo session_prefs
     = Inr (allocation_object web_demo session_prefs ''Port: 9007199254740993''
              (Finite 9007199254740992))"
    by (simp only: parseInt_2_53_1) simp
  from a b c show ?thesis
    by blast
qed

text \<open>
  The claim C9 as first stated, that the extracted port is the integer formed by the run of
  digits, fails from \<open>2^53 + 1\<close> on: the run \<^verbatim>\<open>9007199254740993\<close> writes an integer
  that no double holds, and \<^verbatim>\<open>parseInt\<close> returns its neighbour.
\<close>

theorem cliAllocatePort_first_digit_run_counterexample:
  "exec (cli_prints ''Port: 9007199254740993'') (allocate_command_line web_demo session_prefs)
     = Inr ''Port: 9007199254740993''
   \<and> find (\<lambda>line. str_includes line ''Port:'') (split (trim ''Port: 9007199254740993'') ''\<newline>'')
     = Some ''Port: 9007199254740993''
   \<and> match_digits ''Port: 9007199254740993'' = Some ''9007199254740993''
   \<and> decimal_value ''9007199254740993'' = 9007199254740993
   \<and> extracted_port ''Port: 9007199254740993'' = Inr (Some (Finite 9007199254740992))
   \<and> result_field (cliAllocatePort (cli_prints ''Port: 9007199254740993'') web_demo session_prefs)
       ''allocated_port'' = Some (JNum 9007199254740992)
   \<and> result_field (cliAllocatePort (cli_prints ''Port: 9007199254740993'') web_demo session_prefs)
       ''allocated_port'' \<noteq> Some (JNum 9007199254740993)"
proof -
  have l: "split (trim ''Port: 9007199254740993'') ''\<newline>'' = [''Port: 9007199254740993'']"
    by code_simp
  have s: "str_includes ''Port: 9007199254740993'' ''Port:''"
    by code_simp
  have m: "match_digits ''Port: 9007199254740993'' = Some ''9007199254740993''"
    by (simp add: match_digits_def is_digit_def)
  note v = decimal_value_2_53_1
  note p = parseInt_2_53_1
  have f: "find (\<lambda>line. str_includes line ''Port:'') (split (trim ''Port: 9007199254740993'') ''\<newline>'')
     = Some ''Port: 9007199254740993''"
    by (simp add: l s)
  have x: "extracted_port ''Port: 9007199254740993'' = Inr (Some (Finite 9007199254740992))"
    by (simp add: extracted_port_def f m p)
  then have "cliAllocatePort (cli_prints ''Port: 9007199254740993'') web_demo session_prefs
               = Inr (allocation_object web_demo session_prefs ''Port: 9007199254740993''
                        (Finite 9007199254740992))"
    by (simp add: cliAllocatePort_def allocate_try_def exec_cli_prints)
  then have r: "result_field (cliAllocatePort (cli_prints ''Port: 9007199254740993'') web_demo session_prefs)
       ''allocated_port'' = Some (JNum 9007199254740992)"
    by (simp add: result_field_def allocation_object_def)
  from f m v x r show ?thesis
    by (simp add: exec_cli_prints)
qed

lemma extracted_port_line_3042:
  assumes "split (trim out) ''\<newline>'' = before @ ''Port: 3042'' # after"
    and "\<forall>l\<in>set before. \<not> sublist ''Port:'' l"
  shows "extracted_port out = Inr (Some (Finite 3042))"
proof -
  have "sublist ''Port:'' ''Port: 3042''"
    by code_simp
  with assms have "find (\<lambda>line. str_includes line ''Port:'') (split (trim out) ''\<newline>'')
                      = Some ''Port: 3042''"
    by (simp add: find_first str_includes_sublist)
  moreover have "match_digits ''Port: 3042'' = Some ''3042''"
    by (simp add: match_digits_def is_digit_def)
  moreover have "parseInt ''3042'' = Finite 3042"
    using parseInt_exact [of "''3042''"] by (simp add: decimal_value_def digit_val_def)
  ultimately show ?thesis
    by (simp add: extracted_port_def)
qed

lemma extracted_port_no_marker:
  assumes "\<forall>l\<in>set (split (trim out) ''\<newline>''). \<not> sublist ''Port:'' l"
  shows "extracted_port out = Inr None"
  using assms by (simp add: extracted_port_def find_none str_includes_sublist)

text \<open>
  C6 (amended). For an allocate command whose CLI invocation succeeds: when the first line of
  the trimmed output that contains \<^verbatim>\<open>Port:\<close> is the line \<^verbatim>\<open>Port: 3042\<close>, the
  CLI fallback returns a result with \<^verbatim>\<open>allocated_port = 3042\<close> and
  \<^verbatim>\<open>service_url = "http://localhost:3042"\<close>; when no line contains
  \<^verbatim>\<open>Port:\<close>, it fails with the error
  \<^verbatim>\<open>CLI allocation failed: Failed to parse allocated port from styxy output\<close>. This
  holds for every allocate command, the one of service type \<^verbatim>\<open>web\<close> and project
  \<^verbatim>\<open>demo\<close> among them.
\<close>

theorem cliAllocatePort_scenario:
  assumes "exec sh (allocate_command_line ctx prefs) = Inr out"
  shows "(split (trim out) ''\<newline>'' = before @ ''Port: 3042'' # after
            \<and> (\<forall>l\<in>set before. \<not> sublist ''Port:'' l)
          \<longrightarrow> fallbackToCliCommand sh (Allocate ctx prefs meta)
                = Inr (allocation_result ctx prefs out 3042)
              \<and> get_prop (allocation_result ctx prefs out 3042) ''allocated_port''
                = Some (JNum 3042)
              \<and> get_prop (allocation_result ctx prefs out 3042) ''service_url''
                = Some (JStr ''http://localhost:3042''))
       \<and> ((\<forall>l\<in>set (split (trim out) ''\<newline>''). \<not> sublist ''Port:'' l)
          \<longrightarrow> fallbackToCliCommand sh (Allocate ctx prefs meta)
                = Inl (Error ''CLI allocation failed: Failed to parse allocated port from styxy output''))"
proof (intro conjI impI)
  assume h: "split (trim out) ''\<newline>'' = before @ ''Port: 3042'' # after
            \<and> (\<forall>l\<in>set before. \<not> sublist ''Port:'' l)"
  then have "extracted_port out = Inr (Some (Finite 3042))"
    by (simp add: extracted_port_line_3042)
  with assms show "fallbackToCliCommand sh (Allocate ctx prefs meta)
                = Inr (allocation_result ctx prefs out 3042)"
    by (simp add: cliAllocatePort_def allocate_try_def allocation_result_def)
  show "get_prop (allocation_result ctx prefs out 3042) ''allocated_port'' = Some (JNum 3042)"
    by (simp add: allocation_result_def allocation_object_def)
  show "get_prop (allocation_result ctx prefs out 3042) ''service_url''
          = Some (JStr ''http://localhost:3042'')"
    by (simp add: allocation_result_def allocation_object_def show_int_3042)
next
  assume "\<forall>l\<in>set (split (trim out) ''\<newline>''). \<not> sublist ''Port:'' l"
  then have "extracted_port out = Inr None"
    by (rule extracted_port_no_marker)
  with assms show "fallbackToCliCommand sh (Allocate ctx prefs meta)
                = Inl (Error ''CLI allocation failed: Failed to parse allocated port from styxy output'')"
    by (simp add: cliAllocatePort_def allocate_try_def)
qed

theorem cliAllocatePort_scenario_witness:
  "result_field (fallbackToCliCommand (cli_prints ''Port: 3042\<newline>'')
                   (Allocate web_demo session_prefs demo_meta)) ''allocated_port''
     = Some (JNum 3042)
   \<and> result_field (fallbackToCliCommand (cli_prints ''Port: 3042\<newline>'')
                   (Allocate web_demo session_prefs demo_meta)) ''service_url''
     = Some (JStr ''http://localhost:3042'')
   \<and> fallbackToCliCommand (cli_prints ''Allocation done'')
                   (Allocate web_demo session_prefs demo_meta)
     = Inl (Error ''CLI allocation failed: Failed to parse allocated port from styxy output'')"
proof -
  have l1: "split (trim ''Port: 3042\<newline>'') ''\<newline>'' = [] @ ''Port: 3042'' # []
              \<and> (\<forall>l\<in>set []. \<not> sublist ''Port:'' l)"
    by code_simp
  have l2: "\<forall>l\<in>set (split (trim ''Allocation done'') ''\<newline>''). \<not> sublist ''Port:'' l"
    by code_simp
  note t1 = cliAllocatePort_scenario [OF exec_cli_prints, of "''Port: 3042\<newline>''" "[]" "[]" demo_meta]
  note t2 = cliAllocatePort_scenario [OF exec_cli_prints, of "''Allocation done''" "[]" "[]" demo_meta]
  from t1 l1 have a: "fallbackToCliCommand (cli_prints ''Port: 3042\<newline>'')
                   (Allocate web_demo session_prefs demo_meta)
                = Inr (allocation_result web_demo session_prefs ''Port: 3042\<newline>'' 3042)
              \<and> get_prop (allocation_result web_demo session_prefs ''Port: 3042\<newline>'' 3042) ''allocated_port''
                = Some (JNum 3042)
              \<and> get_prop (allocation_result web_demo session_prefs ''Port: 3042\<newline>'' 3042) ''service_url''
                = Some (JStr ''http://localhost:3042'')"
    by blast
  from t2 l2 have b: "fallbackToCliCommand (cli_prints ''Allocation done'')
                   (Allocate web_demo session_prefs demo_meta)
     = Inl (Error ''CLI allocation failed: Failed to parse allocated port from styxy output'')"
    by blast
  from a b show ?thesis
    by (simp add: result_field_def)
qed

text \<open>
  The claim C6 as first stated, for any output that contains the line
  \<^verbatim>\<open>Port: 3042\<close>, fails on an output with an earlier port line: line 152 takes the
  first line containing \<^verbatim>\<open>Port:\<close>.
\<close>

theorem cliAllocatePort_scenario_counterexample:
  "exec (cli_prints two_port_lines) (allocate_command_line web_demo session_prefs)
     = Inr two_port_lines
   \<and> ''Port: 3042'' \<in> set (split (trim two_port_lines) ''\<newline>'')
   \<and> result_field (fallbackToCliCommand (cli_prints two_port_lines)
                     (Allocate web_demo session_prefs demo_meta)) ''allocated_port''
       = Some (JNum 80)
   \<and> result_field (fallbackToCliCommand (cli_prints two_port_lines)
                     (Allocate web_demo session_prefs demo_meta)) ''allocated_port''
       \<noteq> Some (JNum 3042)"
proof -
  have l: "split (trim two_port_lines) ''\<newline>'' = [''Port: 80'', ''Port: 3042'']"
    by code_simp
  have s: "str_includes ''Port: 80'' ''Port:''"
    by code_simp
  have m: "match_digits ''Port: 80'' = Some ''80''"
    by (simp add: match_digits_def is_digit_def)
  have p: "parseInt ''80'' = Finite 80"
    using parseInt_exact [of "''80''"] by (simp add: decimal_value_def digit_val_def)
  have "extracted_port two_port_lines = Inr (Some (Finite 80))"
    by (simp add: extracted_port_def l s m p)
  then have "fallbackToCliCommand (cli_prints two_port_lines)
                     (Allocate web_demo session_prefs demo_meta)
               = Inr (allocation_result web_demo session_prefs two_port_lines 80)"
    by (simp add: cliAllocatePort_def allocate_try_def exec_cli_prints allocation_result_def)
  then show ?thesis
    by (simp add: result_field_def allocation_result_def allocation_object_def exec_cli_prints l)
qed

subsection \<open>Cleanup\<close>

lemma takeWhile_append_stop:
  "ys = [] \<or> \<not> P (hd ys) \<Longrightarrow> takeWhile P (xs @ ys) = takeWhile P xs"
proof (induction xs)
  case Nil
  then show ?case by (cases ys) auto
next
  case (Cons x xs)
  then show ?case by simp
qed

lemma dropWhile_append_stop:
  "ys = [] \<or> \<not> P (hd ys) \<Longrightarrow> dropWhile P (xs @ ys) = dropWhile P xs @ ys"
proof (induction xs)
  case Nil
  then show ?case by (cases ys) auto
next
  case (Cons x xs)
  then show ?case by simp
qed

lemma released_here_iff:
  "released_here s \<longleftrightarrow> (\<exists>d ss. is_digit d \<and> s = released_marker @ d # ss)"
proof
  assume "released_here s"
  then obtain t where s: "s = released_marker @ t" and t: "takeWhile is_digit t \<noteq> []"
    by (auto simp: released_here_def prefix_def)
  from t obtain d ss where "t = d # ss" "is_digit d"
    by (cases t) (auto split: if_splits)
  with s show "\<exists>d ss. is_digit d \<and> s = released_marker @ d # ss"
    by blast
next
  assume "\<exists>d ss. is_digit d \<and> s = released_marker @ d # ss"
  then show "released_here s"
    by (auto simp: released_here_def)
qed

lemma marker_no_digit: "c \<in> set released_marker \<Longrightarrow> \<not> is_digit c"
  by (auto simp: released_marker_def is_digit_def)

lemma released_here_append:
  "released_here (p @ released_marker @ u) \<longleftrightarrow> released_here p \<or> (p = [] \<and> released_here (released_marker @ u))"
proof (cases "p = []")
  case True
  then show ?thesis by (simp add: released_here_iff)
next
  case False
  show ?thesis
  proof
    assume "released_here (p @ released_marker @ u)"
    then obtain d ss where d: "is_digit d" and e: "p @ released_marker @ u = released_marker @ d # ss"
      by (auto simp: released_here_iff)
    have "length released_marker < length p"
    proof (rule ccontr)
      assume "\<not> length released_marker < length p"
      then have le: "length p \<le> length released_marker" by simp
      have "(p @ released_marker @ u) ! length released_marker = d"
        unfolding e by (simp add: nth_append)
      moreover have "(p @ released_marker @ u) ! length released_marker
                       = released_marker ! (length released_marker - length p)"
      proof -
        from False have "0 < length p" by simp
        with le have "length released_marker - length p < length released_marker"
          by (simp add: released_marker_def)
        with le show ?thesis by (simp add: nth_append)
      qed
      moreover have "released_marker ! (length released_marker - length p) \<in> set released_marker"
        using False by (intro nth_mem) (simp add: released_marker_def)
      ultimately show False
        using d marker_no_digit by metis
    qed
    then have n: "Suc (length released_marker) \<le> length p"
      by simp
    have "take (Suc (length released_marker)) (p @ released_marker @ u)
            = take (Suc (length released_marker)) p"
      using n by simp
    moreover have "take (Suc (length released_marker)) (released_marker @ d # ss)
                     = released_marker @ [d]"
      by simp
    ultimately have "take (Suc (length released_marker)) p = released_marker @ [d]"
      using e by simp
    then have "p = (released_marker @ [d]) @ drop (Suc (length released_marker)) p"
      by (metis append_take_drop_id)
    then obtain q where "p = released_marker @ d # q"
      by simp
    with d show "released_here p \<or> (p = [] \<and> released_here (released_marker @ u))"
      by (auto simp: released_here_iff)
  next
    assume "released_here p \<or> (p = [] \<and> released_here (released_marker @ u))"
    with False show "released_here (p @ released_marker @ u)"
      by (auto simp: released_here_iff)
  qed
qed

lemma marker_hd: "released_marker @ u \<noteq> [] \<and> \<not> is_digit (hd (released_marker @ u))"
  by (simp add: released_marker_def is_digit_def)

lemma released_matches_append:
  "released_matches (p @ released_marker @ u)
     = released_matches p @ released_matches (released_marker @ u)"
proof (induction p rule: released_matches.induct)
  case 1
  show ?case by simp
next
  case (2 c cs)
  let ?n = "length released_marker"
  let ?t = "released_marker @ u"
  have here: "released_here ((c # cs) @ ?t) \<longleftrightarrow> released_here (c # cs)"
    using released_here_append [of "c # cs" u] by simp
  show ?case
  proof (cases "released_here (c # cs)")
    case True
    then obtain d ss where "c # cs = released_marker @ d # ss"
      by (auto simp: released_here_iff)
    then have "length (c # cs) = length (released_marker @ d # ss)"
      by simp
    then have len: "?n \<le> length (c # cs)"
      by simp
    then have dr: "drop ?n ((c # cs) @ ?t) = drop ?n (c # cs) @ ?t"
      by (simp only: drop_append) simp
    have tw: "takeWhile is_digit (drop ?n (c # cs) @ ?t) = takeWhile is_digit (drop ?n (c # cs))"
      using marker_hd by (intro takeWhile_append_stop) simp
    have dw: "dropWhile is_digit (drop ?n (c # cs) @ ?t) = dropWhile is_digit (drop ?n (c # cs)) @ ?t"
      using marker_hd by (intro dropWhile_append_stop) simp
    have "released_matches ((c # cs) @ ?t)
            = (released_marker @ takeWhile is_digit (drop ?n ((c # cs) @ ?t)))
                # released_matches (dropWhile is_digit (drop ?n ((c # cs) @ ?t)))"
      using here True released_matches.simps(2) [of c "cs @ ?t"] by simp
    also have "\<dots> = (released_marker @ takeWhile is_digit (drop ?n (c # cs)))
                # released_matches (dropWhile is_digit (drop ?n (c # cs)) @ ?t)"
      unfolding dr tw dw ..
    also have "\<dots> = (released_marker @ takeWhile is_digit (drop ?n (c # cs)))
                # (released_matches (dropWhile is_digit (drop ?n (c # cs))) @ released_matches ?t)"
      using "2.IH"(1) [OF True] by simp
    also have "\<dots> = released_matches (c # cs) @ released_matches ?t"
      using True by simp
    finally show ?thesis by simp
  next
    case False
    with here have "\<not> released_here ((c # cs) @ ?t)"
      by simp
    then have "released_matches ((c # cs) @ ?t) = released_matches (cs @ ?t)"
      using released_matches.simps(2) [of c "cs @ ?t"] by simp
    also have "\<dots> = released_matches cs @ released_matches ?t"
      using "2.IH"(2) [OF False] by simp
    also have "\<dots> = released_matches (c # cs) @ released_matches ?t"
      using False by simp
    finally show ?thesis by simp
  qed
qed

lemma released_matches_head:
  assumes "ds \<noteq> []" and "\<forall>c\<in>set ds. is_digit c" and "rest = [] \<or> \<not> is_digit (hd rest)"
  shows "released_matches (released_marker @ ds @ rest)
           = (released_marker @ ds) # released_matches rest"
proof -
  obtain d ds' where ds: "ds = d # ds'" and d: "is_digit d"
    using assms(1,2) by (cases ds) auto
  have h: "released_here (released_marker @ ds @ rest)"
    using ds d by (auto simp: released_here_iff)
  have tw: "takeWhile is_digit (ds @ rest) = ds"
    using assms(2,3) takeWhile_append_stop [of rest is_digit ds] by simp
  have dw: "dropWhile is_digit (ds @ rest) = rest"
    using assms(2,3) dropWhile_append_stop [of rest is_digit ds] by simp
  obtain m ms where mm: "released_marker = m # ms"
    by (simp add: released_marker_def)
  have e: "m # (ms @ ds @ rest) = released_marker @ ds @ rest"
    by (simp add: mm)
  have "released_matches (m # (ms @ ds @ rest)) =
     (if released_here (m # (ms @ ds @ rest))
      then (released_marker @ takeWhile is_digit (drop (length released_marker) (m # (ms @ ds @ rest))))
             # released_matches (dropWhile is_digit (drop (length released_marker) (m # (ms @ ds @ rest))))
      else released_matches (ms @ ds @ rest))"
    by (rule released_matches.simps(2))
  then have "released_matches (released_marker @ ds @ rest) =
      (released_marker @ takeWhile is_digit (drop (length released_marker) (released_marker @ ds @ rest)))
             # released_matches (dropWhile is_digit (drop (length released_marker) (released_marker @ ds @ rest)))"
    unfolding e using h by (simp only: if_True)
  then show ?thesis
    by (simp add: tw dw)
qed

lemma released_matches_none:
  "\<forall>d. is_digit d \<longrightarrow> \<not> sublist (released_marker @ [d]) s \<Longrightarrow> released_matches s = []"
proof (induction s rule: released_matches.induct)
  case 1
  show ?case by simp
next
  case (2 c cs)
  have nh: "\<not> released_here (c # cs)"
  proof
    assume "released_here (c # cs)"
    then obtain d ss where "is_digit d" "c # cs = released_marker @ d # ss"
      by (auto simp: released_here_iff)
    then have "is_digit d \<and> sublist (released_marker @ [d]) (c # cs)"
      by (auto simp: sublist_def intro: exI [of _ "[]"])
    with "2.prems" show False by blast
  qed
  have "\<forall>d. is_digit d \<longrightarrow> \<not> sublist (released_marker @ [d]) cs"
    using "2.prems" by (auto simp: sublist_Cons_right)
  with "2.IH"(2) [OF nh] nh show ?case
    by simp
qed

lemma extractReleasedPorts_step:
  assumes "ds \<noteq> []" and "\<forall>c\<in>set ds. is_digit c" and "rest = [] \<or> \<not> is_digit (hd rest)"
  shows "extractReleasedPorts (pre @ released_marker @ ds @ rest)
           = extractReleasedPorts pre @ parseInt ds # extractReleasedPorts rest"
proof -
  have "match_digits (released_marker @ ds) = Some ds"
  proof -
    have "dropWhile (\<lambda>c. \<not> is_digit c) (released_marker @ ds) = ds"
      using assms(1,2) by (cases ds) (auto simp: dropWhile_append3 marker_no_digit)
    moreover have "takeWhile is_digit ds = ds"
      using assms(2) by simp
    ultimately show ?thesis
      using assms(1) by (simp add: match_digits_def)
  qed
  then show ?thesis
    using released_matches_append [of pre "ds @ rest"] released_matches_head [OF assms]
    by (simp add: extractReleasedPorts_def map_filter_def)
qed

lemma extractReleasedPorts_none:
  "\<forall>d. is_digit d \<longrightarrow> \<not> sublist (released_marker @ [d]) s \<Longrightarrow> extractReleasedPorts s = []"
  by (simp add: released_matches_none extractReleasedPorts_def map_filter_def)

text \<open>
  C8. For the cleanup command, a successful invocation returns the numbers of all
  \<^verbatim>\<open>Released port <N>\<close> occurrences of the output, from left to right, as
  \<^verbatim>\<open>released_ports\<close>: an occurrence (the marker, the digits \<open>ds\<close>, then no further
  digit) contributes its number between what stands before it and what follows it, and an
  output without an occurrence gives the empty list. A failed invocation still returns a
  result: \<^verbatim>\<open>released_ports\<close> empty, the error message under \<^verbatim>\<open>errors\<close>.
\<close>

theorem cliCleanup_released_ports:
  "(exec sh (cleanup_command_line (Cleanup f p sid)) = Inr out
      \<longrightarrow> fallbackToCliCommand sh (Cleanup f p sid)
            = Inr (JObj [(''released_ports'', JArr (map num_val (extractReleasedPorts out))),
                         (''raw_output'', JStr out)]))
   \<and> (exec sh (cleanup_command_line (Cleanup f p sid)) = Inl e
      \<longrightarrow> fallbackToCliCommand sh (Cleanup f p sid)
            = Inr (JObj [(''released_ports'', JArr []),
                         (''errors'', JArr [JStr (message e)]),
                         (''raw_output'',
                            (if truthy (stdout_of e) then stdout_of e else JStr ''''))]))
   \<and> (ds \<noteq> [] \<and> (\<forall>c\<in>set ds. is_digit c) \<and> (rest = [] \<or> \<not> is_digit (hd rest))
      \<longrightarrow> extractReleasedPorts (pre @ ''Released port '' @ ds @ rest)
            = extractReleasedPorts pre @ parseInt ds # extractReleasedPorts rest)
   \<and> ((\<forall>d. is_digit d \<longrightarrow> \<not> sublist (''Released port '' @ [d]) s)
      \<longrightarrow> extractReleasedPorts s = [])"
proof (intro conjI impI)
  assume "exec sh (cleanup_command_line (Cleanup f p sid)) = Inr out"
  then show "fallbackToCliCommand sh (Cleanup f p sid)
            = Inr (JObj [(''released_ports'', JArr (map num_val (extractReleasedPorts out))),
                         (''raw_output'', JStr out)])"
    by (simp add: cliCleanup_def)
next
  assume "exec sh (cleanup_command_line (Cleanup f p sid)) = Inl e"
  then show "fallbackToCliCommand sh (Cleanup f p sid)
            = Inr (JObj [(''released_ports'', JArr []),
                         (''errors'', JArr [JStr (message e)]),
                         (''raw_output'',
                            (if truthy (stdout_of e) then stdout_of e else JStr ''''))])"
    by (simp add: cliCleanup_def)
next
  assume "ds \<noteq> [] \<and> (\<forall>c\<in>set ds. is_digit c) \<and> (rest = [] \<or> \<not> is_digit (hd rest))"
  then have "extractReleasedPorts (pre @ released_marker @ ds @ rest)
            = extractReleasedPorts pre @ parseInt ds # extractReleasedPorts rest"
    by (intro extractReleasedPorts_step) blast+
  then show "extractReleasedPorts (pre @ ''Released port '' @ ds @ rest)
            = extractReleasedPorts pre @ parseInt ds # extractReleasedPorts rest"
    by (simp only: released_marker_def)
next
  assume "\<forall>d. is_digit d \<longrightarrow> \<not> sublist (''Released port '' @ [d]) s"
  then have "\<forall>d. is_digit d \<longrightarrow> \<not> sublist (released_marker @ [d]) s"
    by (simp only: released_marker_def)
  then show "extractReleasedPorts s = []"
    by (rule extractReleasedPorts_none)
qed

lemma cleanup_force_command:
  "cleanup_command_line (Cleanup True None None) = ''styxy cleanup --force''"
  by (simp add: cleanup_command_line_def)

lemma parseInt_3000: "parseInt ''3000'' = Finite 3000"
  using parseInt_exact [of "''3000''"] by (simp add: decimal_value_def digit_val_def)

lemma parseInt_3001: "parseInt ''3001'' = Finite 3001"
  using parseInt_exact [of "''3001''"] by (simp add: decimal_value_def digit_val_def)

lemma short_has_no_release:
  "length s < 15 \<Longrightarrow> \<forall>d. is_digit d \<longrightarrow> \<not> sublist (''Released port '' @ [d]) s"
  by (auto dest: sublist_length_le)

theorem cliCleanup_released_ports_witness:
  "fallbackToCliCommand (cleanup_prints ''Released port 3000\<newline>Released port 3001\<newline>'')
       (Cleanup True None None)
     = Inr (JObj [(''released_ports'', JArr [JNum 3000, JNum 3001]),
                  (''raw_output'', JStr ''Released port 3000\<newline>Released port 3001\<newline>'')])
   \<and> fallbackToCliCommand cli_missing_shell (Cleanup True None None)
     = Inr (JObj [(''released_ports'', JArr []),
                  (''errors'', JArr [JStr ''Command failed: styxy: not found'']),
                  (''raw_output'', JStr '''')])"
proof -
  let ?out = "''Released port 3000\<newline>Released port 3001\<newline>''"
  note c1 = cliCleanup_released_ports [THEN conjunct1, THEN mp]
  note c2 = cliCleanup_released_ports [THEN conjunct2, THEN conjunct1, THEN mp]
  note c3 = cliCleanup_released_ports [THEN conjunct2, THEN conjunct2, THEN conjunct1, THEN mp]
  note c4 = cliCleanup_released_ports [THEN conjunct2, THEN conjunct2, THEN conjunct2, THEN mp]
  have x1: "exec (cleanup_prints ?out) (cleanup_command_line (Cleanup True None None)) = Inr ?out"
    by (simp add: cleanup_force_command cleanup_prints_def)
  have x2: "exec cli_missing_shell (cleanup_command_line (Cleanup True None None))
              = Inl (ExecError ''Command failed: styxy: not found'' '''')"
    by (simp add: cli_missing_shell_def)
  have e0: "extractReleasedPorts [] = []"
    by (rule c4) (rule short_has_no_release, simp)
  have e1: "extractReleasedPorts ''\<newline>'' = []"
    by (rule c4) (rule short_has_no_release, simp)
  have d1: "''3001'' \<noteq> [] \<and> (\<forall>c\<in>set ''3001''. is_digit c)
              \<and> (''\<newline>'' = [] \<or> \<not> is_digit (hd ''\<newline>''))"
    by (simp add: is_digit_def)
  have e2: "extractReleasedPorts (''\<newline>'' @ ''Released port '' @ ''3001'' @ ''\<newline>'')
              = extractReleasedPorts ''\<newline>'' @ parseInt ''3001'' # extractReleasedPorts ''\<newline>''"
    by (rule c3) (rule d1)
  have d2: "''3000'' \<noteq> [] \<and> (\<forall>c\<in>set ''3000''. is_digit c)
              \<and> (''\<newline>Released port 3001\<newline>'' = []
                  \<or> \<not> is_digit (hd ''\<newline>Released port 3001\<newline>''))"
    by (simp add: is_digit_def)
  have e3: "extractReleasedPorts ([] @ ''Released port '' @ ''3000'' @ ''\<newline>Released port 3001\<newline>'')
              = extractReleasedPorts [] @ parseInt ''3000''
                  # extractReleasedPorts ''\<newline>Released port 3001\<newline>''"
    by (rule c3) (rule d2)
  have e4: "extractReleasedPorts ?out = [Finite 3000, Finite 3001]"
    using e3 e2 by (simp add: e0 e1 parseInt_3000 parseInt_3001)
  have a: "fallbackToCliCommand (cleanup_prints ?out) (Cleanup True None None)
     = Inr (JObj [(''released_ports'', JArr (map num_val (extractReleasedPorts ?out))),
                  (''raw_output'', JStr ?out)])"
    by (rule c1) (rule x1)
  have b: "fallbackToCliCommand cli_missing_shell (Cleanup True None None)
     = Inr (JObj [(''released_ports'', JArr []),
                  (''errors'', JArr [JStr (message (ExecError ''Command failed: styxy: not found'' ''''))]),
                  (''raw_output'',
                     (if truthy (stdout_of (ExecError ''Command failed: styxy: not found'' ''''))
                      then stdout_of (ExecError ''Command failed: styxy: not found'' '''')
                      else JStr ''''))])"
    by (rule c2) (rule x2)
  from a b e4 show ?thesis
    by simp
qed


section \<open>Properties of the daemon channel\<close>

subsection \<open>Configuration\<close>

lemma getConfig_rejects:
  "getConfig depth c opts = (Inl (RangeError ''Maximum call stack size exceeded''), c)"
  by (induction depth arbitrary: opts) simp_all

text \<open>
  C2 (the code departs from the claim). \<^verbatim>\<open>getConfig\<close> never returns a configuration:
  whatever the stack holds, whatever the client and the options, its promise is rejected
  with the \<^verbatim>\<open>RangeError\<close> of an exhausted call stack, and nothing is cached. The
  resolver the claim describes is the declaration of line 16, which the declaration of
  line 344 replaces.
\<close>

theorem getConfig_never_resolves:
  "getConfig depth c opts = (Inl (RangeError ''Maximum call stack size exceeded''), c)"
  by (induction depth arbitrary: opts) simp_all

text \<open>
  What the replaced declaration of line 16 would do if it ran: a truthy cached value is
  returned as it is, a truthy result is returned again by the next call, and without a
  working CLI or a readable file the result is the hardcoded default.
\<close>

lemma getConfig_shadowed_cached:
  "truthy (config c) \<Longrightarrow> getConfig_shadowed h c = (config c, c)"
  by (simp add: getConfig_shadowed_def)

lemma getConfig_shadowed_repeat:
  assumes "getConfig_shadowed h c = (cfg, c')" and "truthy cfg"
  shows "getConfig_shadowed h' c' = (cfg, c')"
proof -
  have "config c' = cfg"
    using assms(1) by (auto simp: getConfig_shadowed_def Let_def split: if_splits)
  with assms(2) show ?thesis
    by (simp add: getConfig_shadowed_def)
qed

lemma getConfig_shadowed_fallback:
  assumes "\<not> truthy (config c)"
    and "exec (shell_of h) ''styxy config show --json'' = Inl e"
    and "\<forall>p. read_file h p = Inl (Error ''ENOENT'')"
  shows "fst (getConfig_shadowed h c) =
           JObj [(''daemon'', JObj
                   [(''socket_path'', JStr (path_join [homedir h, ''.styxy'', ''daemon.sock''])),
                    (''port_range'', JObj [(''start'', JNum 3000), (''end'', JNum 9999)])]),
                 (''config_path'', JStr ''not found'')]"
  using assms by (simp add: getConfig_shadowed_def loadDefaultConfig_def Let_def)

subsection \<open>Sending\<close>

lemma open_connection_rejects:
  "open_connection h c = (Inl (RangeError ''Maximum call stack size exceeded''), c)"
  by (simp add: open_connection_def getConfig_rejects)

lemma sendDaemonCommand_unconnected:
  assumes "\<forall>s. daemonSocket c = Some s \<longrightarrow> readyState s \<noteq> Open"
  shows "sendDaemonCommand h c cmd =
           \<lparr> settled = fallbackToCliCommand (shell_of h) cmd, client_after = c,
             fallback_calls = [cmd] \<rparr>"
  using assms
  by (auto simp: sendDaemonCommand_def connectToDaemon_def open_connection_rejects
           split: option.splits)

lemma sendDaemonCommand_connected:
  assumes "daemonSocket c = Some s" and "readyState s = Open"
  shows "sendDaemonCommand h c cmd =
           \<lparr> settled = fst (await_response (json_parse (shell_of h)) [] (daemon_events h cmd)),
             client_after = c\<lparr>daemonSocket := Some (s\<lparr>readyState :=
                 snd (await_response (json_parse (shell_of h)) [] (daemon_events h cmd))\<rparr>)\<rparr>,
             fallback_calls = [] \<rparr>"
  using assms by (simp add: sendDaemonCommand_def connectToDaemon_def split: prod.splits)

text \<open>
  What the promise of lines 89 to 109 would do on a client with an open socket: its
  rejection (an \<^verbatim>\<open>error\<close> event, the timeout of line 106) is the rejection of
  \<^verbatim>\<open>sendDaemonCommand\<close>, with no CLI fallback, since the promise is returned without
  \<^verbatim>\<open>await\<close>. The socket is closed by then, so the next call connects anew and takes
  the fallback.
\<close>

lemma sendDaemonCommand_socket_error:
  assumes "daemonSocket c = Some s" and "readyState s = Open"
    and "daemon_events h cmd = (t, SocketError e) # evs" and "t < 10000"
  shows "sendDaemonCommand h c cmd =
           \<lparr> settled = Inl e, client_after = c\<lparr>daemonSocket := Some (s\<lparr>readyState := Closed\<rparr>)\<rparr>,
             fallback_calls = [] \<rparr>"
    and "sendDaemonCommand h' (client_after (sendDaemonCommand h c cmd)) cmd' =
           \<lparr> settled = fallbackToCliCommand (shell_of h') cmd',
             client_after = client_after (sendDaemonCommand h c cmd),
             fallback_calls = [cmd'] \<rparr>"
proof -
  show a: "sendDaemonCommand h c cmd =
           \<lparr> settled = Inl e, client_after = c\<lparr>daemonSocket := Some (s\<lparr>readyState := Closed\<rparr>)\<rparr>,
             fallback_calls = [] \<rparr>"
    using assms by (simp add: sendDaemonCommand_connected)
  show "sendDaemonCommand h' (client_after (sendDaemonCommand h c cmd)) cmd' =
           \<lparr> settled = fallbackToCliCommand (shell_of h') cmd',
             client_after = client_after (sendDaemonCommand h c cmd),
             fallback_calls = [cmd'] \<rparr>"
    by (rule sendDaemonCommand_unconnected) (simp add: a)
qed

lemma sendDaemonCommand_silent:
  "sendDaemonCommand silent_daemon connected_client (Status True True) =
     \<lparr> settled = Inl (Error ''Command timeout''),
       client_after = connected_client
         \<lparr>daemonSocket := Some \<lparr> target = JStr ''/home/dev/.styxy/daemon.sock'', readyState = Closed \<rparr>\<rparr>,
       fallback_calls = [] \<rparr>"
  by (simp add: sendDaemonCommand_def connectToDaemon_def connected_client_def silent_daemon_def)






text \<open>A caller that awaits inside its \<^verbatim>\<open>try\<close> does recover every rejection.\<close>

lemma getMetrics_never_rejects: "\<exists>v. settled (getMetrics h c opts) = Inr v"
  by (cases "settled (sendDaemonCommand h c (Metrics opts))") (simp_all add: getMetrics_def Let_def)

subsection \<open>Field sets\<close>

lemma allocation_object_fields:
  "field_names (allocation_object ctx prefs out p) =
     [''allocated_port'', ''service_url'', ''cleanup_command'', ''duration'',
      ''expires_with_session'', ''usage_example'', ''raw_output'']"
  by (simp add: allocation_object_def)

lemma cliAllocatePort_Inr:
  "cliAllocatePort sh ctx prefs = Inr r \<Longrightarrow> \<exists>out p. r = allocation_object ctx prefs out p"
  by (auto simp: cliAllocatePort_def allocate_try_def split: sum.splits option.splits if_splits)

lemma parseStatusOutput_fields:
  "field_names (parseStatusOutput out) =
     [''daemon_running'', ''pid'', ''uptime'', ''active_ports'', ''config_path'', ''log_path'',
      ''raw_output'']"
  by (simp add: parseStatusOutput_def Let_def)

text \<open>
  C3 (amended). The field set of a result of the CLI fallback is fixed by the command type
  together with the sub-path that answered: for allocate, the seven fields of the
  allocation; for status, the seven fields of the parsed text when the structured
  invocation fails and the plain one succeeds, and the four fields of the degraded result
  when both fail; for cleanup, \<^verbatim>\<open>released_ports\<close> and \<^verbatim>\<open>raw_output\<close> after a
  successful invocation, with \<^verbatim>\<open>errors\<close> between them after a failed one. The
  structured status sub-path and the socket path return the decoded value as it is,
  whatever its fields.
\<close>

theorem result_field_names_by_path:
  "(fallbackToCliCommand sh (Allocate ctx prefs meta) = Inr r
      \<longrightarrow> field_names r =
            [''allocated_port'', ''service_url'', ''cleanup_command'', ''duration'',
             ''expires_with_session'', ''usage_example'', ''raw_output''])
   \<and> ((exec sh ''styxy status --json'' = Inl e1
          \<or> (exec sh ''styxy status --json'' = Inr jout \<and> json_parse sh jout = None))
        \<and> exec sh ''styxy status'' = Inr out
      \<longrightarrow> result_fields (fallbackToCliCommand sh (Status a b)) =
            Some [''daemon_running'', ''pid'', ''uptime'', ''active_ports'', ''config_path'',
                  ''log_path'', ''raw_output''])
   \<and> ((exec sh ''styxy status --json'' = Inl e1
          \<or> (exec sh ''styxy status --json'' = Inr jout \<and> json_parse sh jout = None))
        \<and> exec sh ''styxy status'' = Inl e2
      \<longrightarrow> result_fields (fallbackToCliCommand sh (Status a b)) =
            Some [''daemon_running'', ''error'', ''active_ports'', ''recent_errors''])
   \<and> (exec sh ''styxy status --json'' = Inr jout \<and> json_parse sh jout = Some v
      \<longrightarrow> fallbackToCliCommand sh (Status a b) = Inr v)
   \<and> (exec sh (cleanup_command_line (Cleanup f p sid)) = Inr cout
      \<longrightarrow> result_fields (fallbackToCliCommand sh (Cleanup f p sid)) =
            Some [''released_ports'', ''raw_output''])
   \<and> (exec sh (cleanup_command_line (Cleanup f p sid)) = Inl e3
      \<longrightarrow> result_fields (fallbackToCliCommand sh (Cleanup f p sid)) =
            Some [''released_ports'', ''errors'', ''raw_output''])
   \<and> (daemonSocket c = Some s \<and> readyState s = Open \<and> daemon_events h cmd = [(t, Data d)]
        \<and> t < 10000 \<and> json_parse (shell_of h) d = Some w
      \<longrightarrow> settled (sendDaemonCommand h c cmd) = Inr w)"
proof (intro conjI impI)
  assume "fallbackToCliCommand sh (Allocate ctx prefs meta) = Inr r"
  then obtain out p where "r = allocation_object ctx prefs out p"
    using cliAllocatePort_Inr by fastforce
  then show "field_names r =
            [''allocated_port'', ''service_url'', ''cleanup_command'', ''duration'',
             ''expires_with_session'', ''usage_example'', ''raw_output'']"
    by (simp add: allocation_object_fields)
next
  assume "(exec sh ''styxy status --json'' = Inl e1
          \<or> (exec sh ''styxy status --json'' = Inr jout \<and> json_parse sh jout = None))
        \<and> exec sh ''styxy status'' = Inr out"
  then have "cliGetStatus sh = parseStatusOutput out"
    by (auto simp: cliGetStatus_def)
  then show "result_fields (fallbackToCliCommand sh (Status a b)) =
            Some [''daemon_running'', ''pid'', ''uptime'', ''active_ports'', ''config_path'',
                  ''log_path'', ''raw_output'']"
    by (simp add: result_fields_def parseStatusOutput_fields)
next
  assume "(exec sh ''styxy status --json'' = Inl e1
          \<or> (exec sh ''styxy status --json'' = Inr jout \<and> json_parse sh jout = None))
        \<and> exec sh ''styxy status'' = Inl e2"
  then show "result_fields (fallbackToCliCommand sh (Status a b)) =
            Some [''daemon_running'', ''error'', ''active_ports'', ''recent_errors'']"
    by (auto simp: cliGetStatus_def result_fields_def)
next
  assume "exec sh ''styxy status --json'' = Inr jout \<and> json_parse sh jout = Some v"
  then show "fallbackToCliCommand sh (Status a b) = Inr v"
    by (simp add: cliGetStatus_def)
next
  assume "exec sh (cleanup_command_line (Cleanup f p sid)) = Inr cout"
  then show "result_fields (fallbackToCliCommand sh (Cleanup f p sid)) =
            Some [''released_ports'', ''raw_output'']"
    by (simp add: cliCleanup_def result_fields_def)
next
  assume "exec sh (cleanup_command_line (Cleanup f p sid)) = Inl e3"
  then show "result_fields (fallbackToCliCommand sh (Cleanup f p sid)) =
            Some [''released_ports'', ''errors'', ''raw_output'']"
    by (simp add: cliCleanup_def result_fields_def)
next
  assume h: "daemonSocket c = Some s \<and> readyState s = Open \<and> daemon_events h cmd = [(t, Data d)]
        \<and> t < 10000 \<and> json_parse (shell_of h) d = Some w"
  then have "settled (sendDaemonCommand h c cmd)
               = fst (await_response (json_parse (shell_of h)) [] (daemon_events h cmd))"
    by (simp add: sendDaemonCommand_connected)
  with h show "settled (sendDaemonCommand h c cmd) = Inr w"
    by simp
qed

lemma status_text_result:
  "fallbackToCliCommand status_text_shell (Status True True)
     = Inr (parseStatusOutput ''Daemon running\<newline>PID: 4711'')"
  by (simp add: cliGetStatus_def status_text_shell_def)

lemma status_missing_result:
  "result_fields (fallbackToCliCommand cli_missing_shell (Status True True))
     = Some [''daemon_running'', ''error'', ''active_ports'', ''recent_errors'']"
  by (simp add: cliGetStatus_def cli_missing_shell_def result_fields_def)

text \<open>
  The claim C3 as first stated fails for the status command: the text sub-path, the
  degraded sub-path and the socket path give three different field sets.
\<close>

theorem result_field_names_counterexample:
  "result_fields (fallbackToCliCommand status_text_shell (Status True True))
     = Some [''daemon_running'', ''pid'', ''uptime'', ''active_ports'', ''config_path'',
             ''log_path'', ''raw_output'']
   \<and> result_fields (fallbackToCliCommand cli_missing_shell (Status True True))
     = Some [''daemon_running'', ''error'', ''active_ports'', ''recent_errors'']
   \<and> result_fields (settled (sendDaemonCommand answering_daemon connected_client (Status True True)))
     = Some [''running'']
   \<and> map_option set (result_fields (fallbackToCliCommand status_text_shell (Status True True)))
     \<noteq> map_option set (result_fields (fallbackToCliCommand cli_missing_shell (Status True True)))"
proof -
  have a: "result_fields (fallbackToCliCommand status_text_shell (Status True True))
     = Some [''daemon_running'', ''pid'', ''uptime'', ''active_ports'', ''config_path'',
             ''log_path'', ''raw_output'']"
    using status_text_result by (simp add: result_fields_def parseStatusOutput_fields)
  have "daemonSocket connected_client
          = Some \<lparr> target = JStr ''/home/dev/.styxy/daemon.sock'', readyState = Open \<rparr>"
    by (simp add: connected_client_def)
  then have "settled (sendDaemonCommand answering_daemon connected_client (Status True True))
           = fst (await_response (json_parse (shell_of answering_daemon)) []
                    (daemon_events answering_daemon (Status True True)))"
    by (simp add: sendDaemonCommand_connected)
  then have c: "result_fields (settled (sendDaemonCommand answering_daemon connected_client (Status True True)))
     = Some [''running'']"
    by (simp add: answering_daemon_def result_fields_def running_reply_def)
  have d: "''pid'' \<in> set [''daemon_running'', ''pid'', ''uptime'', ''active_ports'', ''config_path'',
             ''log_path'', ''raw_output'']"
    by simp
  have e: "''pid'' \<notin> set [''daemon_running'', ''error'', ''active_ports'', ''recent_errors'']"
    by simp
  from d e have "set [''daemon_running'', ''pid'', ''uptime'', ''active_ports'', ''config_path'',
             ''log_path'', ''raw_output''] \<noteq> set [''daemon_running'', ''error'', ''active_ports'', ''recent_errors'']"
    by metis
  then show ?thesis
    by (simp only: a status_missing_result c option.map) simp
qed

lemma allocate_3042_result:
  "fallbackToCliCommand (cli_prints ''Port: 3042\<newline>'') (Allocate web_demo session_prefs demo_meta)
     = Inr (allocation_result web_demo session_prefs ''Port: 3042\<newline>'' 3042)"
proof -
  have "split (trim ''Port: 3042\<newline>'') ''\<newline>'' = [] @ ''Port: 3042'' # []"
    by code_simp
  then have "extracted_port ''Port: 3042\<newline>'' = Inr (Some (Finite 3042))"
    by (rule extracted_port_line_3042) simp
  then show ?thesis
    by (simp add: cliAllocatePort_def allocate_try_def exec_cli_prints allocation_result_def)
qed

theorem result_field_names_by_path_witness:
  "result_fields (fallbackToCliCommand (cli_prints ''Port: 3042\<newline>'')
                    (Allocate web_demo session_prefs demo_meta))
     = Some [''allocated_port'', ''service_url'', ''cleanup_command'', ''duration'',
             ''expires_with_session'', ''usage_example'', ''raw_output'']
   \<and> result_fields (fallbackToCliCommand status_text_shell (Status True True))
     = Some [''daemon_running'', ''pid'', ''uptime'', ''active_ports'', ''config_path'',
             ''log_path'', ''raw_output'']
   \<and> result_fields (fallbackToCliCommand cli_missing_shell (Status True True))
     = Some [''daemon_running'', ''error'', ''active_ports'', ''recent_errors'']
   \<and> fallbackToCliCommand status_json_shell (Status True True)
     = Inr (JObj [(''running'', JBool True)])
   \<and> result_fields (fallbackToCliCommand (cleanup_prints ''Released port 3000\<newline>'')
                    (Cleanup True None None))
     = Some [''released_ports'', ''raw_output'']
   \<and> result_fields (fallbackToCliCommand cli_missing_shell (Cleanup True None None))
     = Some [''released_ports'', ''errors'', ''raw_output'']
   \<and> settled (sendDaemonCommand answering_daemon connected_client (Status True True))
     = Inr (JObj [(''running'', JBool True)])"
proof -
  note t = result_field_names_by_path
  note c1 = t [THEN conjunct1, THEN mp]
  note c2 = t [THEN conjunct2, THEN conjunct1, THEN mp]
  note c3 = t [THEN conjunct2, THEN conjunct2, THEN conjunct1, THEN mp]
  note c4 = t [THEN conjunct2, THEN conjunct2, THEN conjunct2, THEN conjunct1, THEN mp]
  note c5 = t [THEN conjunct2, THEN conjunct2, THEN conjunct2, THEN conjunct2, THEN conjunct1,
               THEN mp]
  note c6 = t [THEN conjunct2, THEN conjunct2, THEN conjunct2, THEN conjunct2, THEN conjunct2,
               THEN conjunct1, THEN mp]
  note c7 = t [THEN conjunct2, THEN conjunct2, THEN conjunct2, THEN conjunct2, THEN conjunct2,
               THEN conjunct2, THEN mp]
  have "field_names (allocation_result web_demo session_prefs ''Port: 3042\<newline>'' 3042)
          = [''allocated_port'', ''service_url'', ''cleanup_command'', ''duration'',
             ''expires_with_session'', ''usage_example'', ''raw_output'']"
    by (rule c1) (rule allocate_3042_result)
  then have r1: "result_fields (fallbackToCliCommand (cli_prints ''Port: 3042\<newline>'')
                    (Allocate web_demo session_prefs demo_meta))
     = Some [''allocated_port'', ''service_url'', ''cleanup_command'', ''duration'',
             ''expires_with_session'', ''usage_example'', ''raw_output'']"
    by (simp only: allocate_3042_result result_fields_def sum.case)
  have h2: "(exec status_text_shell ''styxy status --json''
               = Inl (ExecError ''Command failed: unknown option --json'' [])
          \<or> (exec status_text_shell ''styxy status --json'' = Inr []
               \<and> json_parse status_text_shell [] = None))
        \<and> exec status_text_shell ''styxy status'' = Inr ''Daemon running\<newline>PID: 4711''"
    by (simp add: status_text_shell_def)
  have r2: "result_fields (fallbackToCliCommand status_text_shell (Status True True))
     = Some [''daemon_running'', ''pid'', ''uptime'', ''active_ports'', ''config_path'',
             ''log_path'', ''raw_output'']"
    by (rule c2) (rule h2)
  have h3: "(exec cli_missing_shell ''styxy status --json''
               = Inl (ExecError ''Command failed: styxy: not found'' [])
          \<or> (exec cli_missing_shell ''styxy status --json'' = Inr []
               \<and> json_parse cli_missing_shell [] = None))
        \<and> exec cli_missing_shell ''styxy status''
               = Inl (ExecError ''Command failed: styxy: not found'' [])"
    by (simp add: cli_missing_shell_def)
  have r3: "result_fields (fallbackToCliCommand cli_missing_shell (Status True True))
     = Some [''daemon_running'', ''error'', ''active_ports'', ''recent_errors'']"
    by (rule c3) (rule h3)
  have h4: "exec status_json_shell ''styxy status --json'' = Inr running_reply
              \<and> json_parse status_json_shell running_reply = Some (JObj [(''running'', JBool True)])"
    by (simp add: status_json_shell_def)
  have r4: "fallbackToCliCommand status_json_shell (Status True True)
     = Inr (JObj [(''running'', JBool True)])"
    by (rule c4) (rule h4)
  have h5: "exec (cleanup_prints ''Released port 3000\<newline>'')
              (cleanup_command_line (Cleanup True None None)) = Inr ''Released port 3000\<newline>''"
    by (simp add: cleanup_force_command cleanup_prints_def)
  have r5: "result_fields (fallbackToCliCommand (cleanup_prints ''Released port 3000\<newline>'')
                    (Cleanup True None None))
     = Some [''released_ports'', ''raw_output'']"
    by (rule c5) (rule h5)
  have h6: "exec cli_missing_shell (cleanup_command_line (Cleanup True None None))
              = Inl (ExecError ''Command failed: styxy: not found'' [])"
    by (simp add: cli_missing_shell_def)
  have r6: "result_fields (fallbackToCliCommand cli_missing_shell (Cleanup True None None))
     = Some [''released_ports'', ''errors'', ''raw_output'']"
    by (rule c6) (rule h6)
  have h7: "daemonSocket connected_client
              = Some \<lparr> target = JStr ''/home/dev/.styxy/daemon.sock'', readyState = Open \<rparr>
        \<and> readyState \<lparr> target = JStr ''/home/dev/.styxy/daemon.sock'', readyState = Open \<rparr> = Open
        \<and> daemon_events answering_daemon (Status True True) = [(12, Data running_reply)]
        \<and> (12::nat) < 10000
        \<and> json_parse (shell_of answering_daemon) running_reply
              = Some (JObj [(''running'', JBool True)])"
    by (simp add: connected_client_def answering_daemon_def)
  have r7: "settled (sendDaemonCommand answering_daemon connected_client (Status True True))
     = Inr (JObj [(''running'', JBool True)])"
    by (rule c7) (rule h7)
  from r1 r2 r3 r4 r5 r6 r7 show ?thesis
    by blast
qed

section \<open>Properties of the singleton lock\<close>

text \<open>
  C4 (amended). From every state in which a lock file exists whose content cannot be read
  or parsed, or whose recorded process id is not alive, \<^verbatim>\<open>acquire\<close> creates the
  directory, deletes the stale file, writes a fresh record that holds the pid of the
  current process, and returns \<^verbatim>\<open>true\<close>, provided that none of
  \<^verbatim>\<open>mkdirSync\<close>, \<^verbatim>\<open>unlinkSync\<close> and \<^verbatim>\<open>writeFileSync\<close> throws.
\<close>

theorem acquire_stale_lock:
  assumes "lock_file s = Some content"
    and "read_throws env \<or> parse env content = None
           \<or> (\<exists>v. parse env content = Some v \<and> \<not> kill0 env (get_prop_opt v ''pid''))"
    and "\<not> mkdir_throws env" and "\<not> unlink_throws env" and "\<not> write_throws env"
  shows "acquire env s =
           (True,
            s\<lparr>lock_dir := True,
              lock_file := Some (stringify env (lock_record env s)),
              fs_log := fs_log s @ [Mkdir, Unlink, WriteFile (stringify env (lock_record env s))],
              acquired := True,
              exit_handlers := Suc (exit_handlers s)\<rparr>)
         \<and> get_prop (lock_record env s) ''pid'' = Some (JNum (pid s))"
proof -
  let ?s = "s\<lparr>lock_dir := True, fs_log := fs_log s @ [Mkdir]\<rparr>"
  have stale: "(truthy (readLockFile env ?s)
                 \<and> isProcessRunning env (get_prop_opt (readLockFile env ?s) ''pid'')) = False"
    using assms(1,2) by (auto simp: readLockFile_def isProcessRunning_def)
  have rec: "lock_record env (cleanup env ?s) = lock_record env s"
    by (simp add: lock_record_def cleanup_def)
  have "acquire env s = claim_lock env (cleanup env ?s)"
    using assms(1,3) by (simp only: acquire_def Let_def stale) simp
  also have "\<dots> = (True,
            s\<lparr>lock_dir := True,
              lock_file := Some (stringify env (lock_record env s)),
              fs_log := fs_log s @ [Mkdir, Unlink, WriteFile (stringify env (lock_record env s))],
              acquired := True,
              exit_handlers := Suc (exit_handlers s)\<rparr>)"
    using assms(1,4,5) by (simp add: claim_lock_def rec) (simp add: cleanup_def)
  finally show ?thesis
    by (simp add: lock_record_def)
qed

text \<open>
  C5 (amended). When no lock file exists and neither \<^verbatim>\<open>mkdirSync\<close> nor
  \<^verbatim>\<open>writeFileSync\<close> throws in the first call, the first \<^verbatim>\<open>acquire\<close> returns
  \<^verbatim>\<open>true\<close> and writes the lock file; when the second call can read the file
  (\<^verbatim>\<open>JSON.parse\<close> giving back the record \<^verbatim>\<open>JSON.stringify\<close> wrote, and the probe
  of the process's own pid succeeding), the second \<^verbatim>\<open>acquire\<close> returns \<^verbatim>\<open>false\<close>
  and leaves the lock file as the first call wrote it.
\<close>

theorem acquire_twice:
  assumes "lock_file s = None"
    and "\<not> mkdir_throws e1" and "\<not> write_throws e1"
    and "\<not> read_throws e2"
    and "parse e2 (stringify e1 (lock_record e1 s)) = Some (lock_record e1 s)"
    and "kill0 e2 (JNum (pid s))"
  shows "fst (acquire e1 s) = True
         \<and> lock_file (snd (acquire e1 s)) = Some (stringify e1 (lock_record e1 s))
         \<and> fst (acquire e2 (snd (acquire e1 s))) = False
         \<and> lock_file (snd (acquire e2 (snd (acquire e1 s)))) = lock_file (snd (acquire e1 s))
         \<and> acquired (snd (acquire e2 (snd (acquire e1 s))))"
proof -
  let ?s1 = "s\<lparr>lock_dir := True,
              fs_log := fs_log s @ [Mkdir, WriteFile (stringify e1 (lock_record e1 s))],
              lock_file := Some (stringify e1 (lock_record e1 s)),
              acquired := True,
              exit_handlers := Suc (exit_handlers s)\<rparr>"
  have first: "acquire e1 s = (True, ?s1)"
    using assms(1,2,3) by (simp add: acquire_def claim_lock_def lock_record_def Let_def)
  have pid: "get_prop_opt (lock_record e1 s) ''pid'' = JNum (pid s)"
    by (simp add: lock_record_def get_prop_opt_def)
  have tr: "truthy (lock_record e1 s)"
    by (simp add: lock_record_def)
  have second: "acquire e2 ?s1 =
      (False, if mkdir_throws e2 then ?s1
              else ?s1\<lparr>lock_dir := True, fs_log := fs_log ?s1 @ [Mkdir]\<rparr>)"
    using assms(4,5,6) pid tr
    by (simp add: acquire_def readLockFile_def isProcessRunning_def Let_def)
  show ?thesis
    unfolding first using second by simp
qed

lemma demo_env_fields:
  "mkdir_throws demo_env = False" "read_throws demo_env = False"
  "unlink_throws demo_env = False" "write_throws demo_env = False"
  "kill0 demo_env v = (v = JNum 100)"
  "now demo_env = ''2025-01-01T00:00:00.000Z''" "hostname demo_env = ''devbox''"
  "argv demo_env = [''node'', ''/srv/styxy-server/src/index.js'']"
  by (simp_all add: demo_env_def)

lemma demo_parse_stale: "parse demo_env stale_content = Some (JObj [(''pid'', JNum 4242)])"
  by (simp add: demo_env_def)

lemma demo_parse_own: "parse demo_env own_content = Some demo_record"
  by (simp add: demo_env_def stale_content_def own_content_def)

lemma demo_lock_record: "lock_record demo_env fresh_state = demo_record"
  by (simp add: lock_record_def demo_record_def demo_env_fields fresh_state_def)

lemma demo_lock_record_stale: "lock_record demo_env stale_state = demo_record"
  by (simp add: lock_record_def demo_record_def demo_env_fields stale_state_def)

lemma show_int_100: "show_int 100 = ''100''"
proof -
  have "show_nat 100 = ''100''"
    by code_simp
  then show ?thesis
    using show_int_exact [of 100] by simp
qed

lemma demo_stringify: "stringify demo_env demo_record = own_content"
  by (simp add: demo_env_def demo_record_def get_prop_opt_def show_int_100 own_content_def)

theorem acquire_stale_lock_witness:
  "acquire demo_env stale_state =
     (True,
      stale_state\<lparr>lock_dir := True, lock_file := Some own_content,
                  fs_log := [Mkdir, Unlink, WriteFile own_content],
                  acquired := True, exit_handlers := 1\<rparr>)"
proof -
  have h1: "lock_file stale_state = Some stale_content"
    by (simp add: stale_state_def)
  have h2: "read_throws demo_env \<or> parse demo_env stale_content = None
           \<or> (\<exists>v. parse demo_env stale_content = Some v
                  \<and> \<not> kill0 demo_env (get_prop_opt v ''pid''))"
    by (simp add: demo_parse_stale demo_env_fields get_prop_opt_def)
  have h3: "\<not> mkdir_throws demo_env" "\<not> unlink_throws demo_env" "\<not> write_throws demo_env"
    by (simp_all add: demo_env_fields)
  from acquire_stale_lock [OF h1 h2 h3]
  have "acquire demo_env stale_state =
           (True,
            stale_state\<lparr>lock_dir := True,
              lock_file := Some (stringify demo_env (lock_record demo_env stale_state)),
              fs_log := fs_log stale_state
                 @ [Mkdir, Unlink, WriteFile (stringify demo_env (lock_record demo_env stale_state))],
              acquired := True,
              exit_handlers := Suc (exit_handlers stale_state)\<rparr>)"
    by (rule conjunct1)
  then show ?thesis
    by (simp add: demo_lock_record_stale demo_stringify) (simp add: stale_state_def)
qed

lemma readonly_env_fields:
  "mkdir_throws readonly_env = False" "read_throws readonly_env = False"
  "unlink_throws readonly_env = True" "write_throws readonly_env = True"
  "kill0 readonly_env v = (v = JNum 100)" "parse readonly_env = parse demo_env"
  by (simp_all add: readonly_env_def demo_env_def)

text \<open>
  The claim C4 as first stated, for every prior state with a stale lock file, fails where
  the lock directory is not writable: \<^verbatim>\<open>writeFileSync\<close> throws, the \<^verbatim>\<open>catch\<close> of
  line 63 returns \<^verbatim>\<open>false\<close>, and the stale file stays.
\<close>

theorem acquire_stale_lock_counterexample:
  "lock_file stale_state = Some stale_content
   \<and> parse readonly_env stale_content = Some (JObj [(''pid'', JNum 4242)])
   \<and> \<not> kill0 readonly_env (JNum 4242)
   \<and> fst (acquire readonly_env stale_state) = False
   \<and> lock_file (snd (acquire readonly_env stale_state)) = Some stale_content"
proof -
  have l: "lock_file stale_state = Some stale_content"
    by (simp add: stale_state_def)
  have "readLockFile readonly_env (stale_state\<lparr>lock_dir := True, fs_log := fs_log stale_state @ [Mkdir]\<rparr>)
          = JObj [(''pid'', JNum 4242)]"
    by (simp add: readLockFile_def l readonly_env_fields demo_parse_stale)
  then have "acquire readonly_env stale_state
               = (False, stale_state\<lparr>lock_dir := True, fs_log := fs_log stale_state @ [Mkdir]\<rparr>)"
    by (simp add: acquire_def Let_def l readonly_env_fields isProcessRunning_def
                  get_prop_opt_def claim_lock_def cleanup_def)
  then show ?thesis
    by (simp add: l readonly_env_fields demo_parse_stale)
qed

theorem acquire_twice_witness:
  "fst (acquire demo_env fresh_state) = True
   \<and> lock_file (snd (acquire demo_env fresh_state)) = Some own_content
   \<and> fst (acquire demo_env (snd (acquire demo_env fresh_state))) = False
   \<and> lock_file (snd (acquire demo_env (snd (acquire demo_env fresh_state)))) = Some own_content"
proof -
  have h1: "lock_file fresh_state = None"
    by (simp add: fresh_state_def)
  have h2: "\<not> mkdir_throws demo_env" "\<not> write_throws demo_env" "\<not> read_throws demo_env"
    by (simp_all add: demo_env_fields)
  have h3: "parse demo_env (stringify demo_env (lock_record demo_env fresh_state))
              = Some (lock_record demo_env fresh_state)"
    by (simp add: demo_lock_record demo_stringify demo_parse_own)
  have h4: "kill0 demo_env (JNum (pid fresh_state))"
    by (simp add: demo_env_fields fresh_state_def)
  from acquire_twice [OF h1 h2 h3 h4] show ?thesis
    by (simp add: demo_lock_record demo_stringify)
qed

text \<open>
  The claim C5 as first stated, for every process without a lock file, fails where the lock
  directory cannot be created: the first call returns \<^verbatim>\<open>false\<close>.
\<close>

theorem acquire_twice_counterexample:
  "lock_file fresh_state = None \<and> fst (acquire no_home_env fresh_state) = False"
  by (simp add: fresh_state_def acquire_def no_home_env_def)

end
